theory Spec2Isabelle
  imports Complex_Main
begin

section \<open>Errors, log records and instants\<close>

text \<open>
  A Go \<open>error\<close> value is modelled by its structure: the typed errors of \<open>strconv\<close> and
  \<open>time\<close>, \<open>errors.New\<close>, and \<open>fmt.Errorf\<close> with its format string, the operands of its
  \<open>%v\<close> verbs and the error wrapped by \<open>%w\<close>. \<open>External\<close> stands for the errors of
  \<open>net/url\<close>, \<open>net/http\<close>, \<open>io\<close> and \<open>encoding/json\<close>, whose content the client never reads.
  \<open>Panic\<close> is not a returned error: it marks a run-time panic, which no caller recovers.
\<close>

datatype NumErr = ErrSyntax | ErrRange

datatype error =
    NumError string string NumErr
  | ParseError string string
  | New string
  | Errorf string "string list" "error option"
  | External string
  | Panic string

text \<open>A record written by \<open>slog.Warn\<close>: the message, the textual attributes, the error attribute.\<close>

datatype logEntry = Warn string "string list" "error option"

text \<open>
  A \<open>time.Time\<close> is the instant it denotes, in nanoseconds since the Unix epoch (its zone
  name is not modelled). \<open>Time.Add\<close> is addition of a \<open>time.Duration\<close>, itself a count of
  nanoseconds; \<open>time.Second\<close> is \<open>10^9\<close>.
\<close>

type_synonym Time = int

definition Second :: int where
  "Second = 1000000000"

definition Add :: "Time \<Rightarrow> int \<Rightarrow> Time" where
  "Add t d = t + d"

section \<open>strconv.ParseInt in base 10\<close>

text \<open>
  \<open>strconv.ParseUint(s, 10, bitSize)\<close> and \<open>strconv.ParseInt(s, 10, bitSize)\<close>, the only base
  the client passes. In base 10 every byte that is not a decimal digit (letters and the
  underscore included) is a syntax error. The accumulator is an unbounded \<open>int\<close>; the two
  overflow tests of the library (\<open>n >= cutoff\<close> before the multiplication, \<open>n1 < n || n1 > maxVal\<close>
  after the addition) are written on it: below the cutoff the product cannot wrap, so the
  sum wraps exactly when it exceeds \<open>2^64 - 1\<close>, which is at least \<open>maxVal\<close>.
\<close>

definition isDigit :: "char \<Rightarrow> bool" where
  "isDigit c = (48 \<le> (of_char c :: nat) \<and> (of_char c :: nat) \<le> 57)"

definition digitVal :: "char \<Rightarrow> int" where
  "digitVal c = int (of_char c) - 48"

fun ParseUint_loop :: "int \<Rightarrow> int \<Rightarrow> string \<Rightarrow> NumErr + int" where
  "ParseUint_loop maxVal n [] = Inr n"
| "ParseUint_loop maxVal n (c # cs) =
     (if \<not> isDigit c then Inl ErrSyntax
      else if n \<ge> (2 ^ 64 - 1) div 10 + 1 then Inl ErrRange
      else if n * 10 + digitVal c > maxVal then Inl ErrRange
      else ParseUint_loop maxVal (n * 10 + digitVal c) cs)"

definition ParseUint :: "string \<Rightarrow> nat \<Rightarrow> NumErr + int" where
  "ParseUint s bitSize =
     (if s = [] then Inl ErrSyntax else ParseUint_loop (2 ^ bitSize - 1) 0 s)"

text \<open>
  On a range error \<open>ParseUint\<close> returns \<open>maxVal = 2^bitSize - 1\<close>, which \<open>ParseInt\<close> then finds
  beyond its own cutoff \<open>2^(bitSize-1)\<close> for either sign: the range error stays a range error.
\<close>

definition ParseInt :: "string \<Rightarrow> nat \<Rightarrow> error + int" where
  "ParseInt s bitSize =
     (case s of
        [] \<Rightarrow> Inl (NumError ''ParseInt'' s ErrSyntax)
      | c # cs \<Rightarrow>
          (let neg = (c = CHR ''-'');
               s1 = (if c = CHR ''+'' \<or> c = CHR ''-'' then cs else s);
               cutoff = 2 ^ (bitSize - 1)
           in case ParseUint s1 bitSize of
                Inl e \<Rightarrow> Inl (NumError ''ParseInt'' s e)
              | Inr un \<Rightarrow>
                  if \<not> neg \<and> un \<ge> cutoff then Inl (NumError ''ParseInt'' s ErrRange)
                  else if neg \<and> un > cutoff then Inl (NumError ''ParseInt'' s ErrRange)
                  else Inr (if neg then - un else un)))"

section \<open>The library functions taken as parameters\<close>

text \<open>
  \<open>strconv.ParseFloat(s, 64)\<close>, \<open>time.Parse(layout, value)\<close> and
  \<open>url.JoinPath(base, elem)\<close> are parameters of the model, collected in one record: every
  theorem stated for a library \<open>L\<close> holds whatever these functions compute. The type \<open>'f\<close>
  stands for \<open>float64\<close>; its \<open>0\<close> is the constant the code initialises elevations with.
  \<open>rangeOrder\<close> is the order in which the runtime's \<open>range\<close> visits the entries of a map
  the client builds itself (the query parameters), which Go leaves unspecified.
\<close>

record 'f stdlib =
  ParseFloat :: "string \<Rightarrow> error + 'f"
  time_Parse :: "string \<Rightarrow> string \<Rightarrow> error + Time"
  url_JoinPath :: "string \<Rightarrow> string \<Rightarrow> error + string"
  rangeOrder :: "(string \<times> string) list \<Rightarrow> (string \<times> string) list"

definition RFC3339 :: string where
  "RFC3339 = ''2006-01-02T15:04:05Z07:00''"

definition DateOnly :: string where
  "DateOnly = ''2006-01-02''"

section \<open>val.go: wire schemas and domain model\<close>

record siteLocation =
  sl_Elevation :: string
  sl_Id :: string
  sl_Latitude :: string
  sl_Longitude :: string
  sl_Name :: string
  sl_Region :: string
  sl_UnitaryAuthArea :: string


record 'f Site =
  Site_Id :: int
  Site_Latitude :: 'f
  Site_Longitude :: 'f
  Site_Name :: string
  Site_Elevation :: 'f
  Site_Region :: string
  Site_UnitaryAuthArea :: string



record wxParam =
  wx_Name :: string
  wx_Units :: string
  wx_Description :: string

text \<open>
  A \<open>Rep\<close> record is a Go \<open>map[string]string\<close>. It is modelled by the list of its entries
  in the order in which \<open>range\<close> visits them, an order Go leaves unspecified: a theorem
  about every list with distinct keys holds for every iteration order.
\<close>

type_synonym rep = "(string \<times> string) list"

record periodEntry =
  pe_Type :: string
  pe_Value :: string
  pe_Rep :: "rep list"

record locationEntry =
  le_Id :: string
  le_Latitude :: string
  le_Longitude :: string
  le_Name :: string
  le_Country :: string
  le_Continent :: string
  le_Elevation :: string
  le_Period :: "periodEntry list"

record dvEntry =
  dv_DataDate :: string
  dv_Type :: string
  dv_Location :: locationEntry


record siteRepResponse =
  srr_Wx :: "wxParam list"
  srr_Dv :: dvEntry


record ParameterDescriptor =
  pd_Name :: string
  pd_Units :: string
  pd_Description :: string

record StringParameterValue =
  spv_Descriptor :: ParameterDescriptor
  spv_Value :: string

record IntParameterValue =
  ipv_Descriptor :: ParameterDescriptor
  ipv_Value :: int

record Forecast =
  Forecast_Time :: Time
  IntParams :: "string \<rightharpoonup> IntParameterValue"
  StringParams :: "string \<rightharpoonup> StringParameterValue"

record Period =
  Period_Type :: string
  Period_Time :: Time
  Period_Forecasts :: "Forecast list"

record 'f LocationRep =
  LocationRep_Id :: int
  LocationRep_Latitude :: 'f
  LocationRep_Longitude :: 'f
  LocationRep_Name :: string
  LocationRep_Country :: string
  LocationRep_Continent :: string
  LocationRep_Elevation :: 'f
  LocationRep_Period :: "Period list"

record 'f SiteRep =
  SiteRep_DataDate :: Time
  SiteRep_Type :: string
  SiteRep_Location :: "'f LocationRep"

section \<open>val.go: convertLocation\<close>

definition knownIntParams :: "string list" where
  "knownIntParams =
     [''F'', ''G'', ''H'', ''Pp'', ''S'', ''T'', ''W'', ''U'', ''Gn'', ''Hn'', ''Dm'', ''Nm'',
      ''FDm'', ''PPd'', ''PPn'', ''$'']"

text \<open>The decoding of the \<open>$\<close> value of a record into seconds (lines 345 to 356).\<close>

definition forecastOffset :: "string \<Rightarrow> error + int" where
  "forecastOffset offsetString =
     (if offsetString = ''Day'' then Inr 0
      else if offsetString = ''Night'' then Inr 86399
      else case ParseInt offsetString 16 of
             Inl err \<Rightarrow> Inl (Errorf ''failed to parse forecast offset: %w'' [] (Some err))
           | Inr offset64 \<Rightarrow> Inr (offset64 * 60))"

text \<open>
  The loop \<open>for k, v := range rep\<close> (lines 358 to 383), on the entries still to visit and
  the two maps built so far.
\<close>

fun rangeRep ::
  "(string \<rightharpoonup> ParameterDescriptor) \<Rightarrow> rep \<Rightarrow>
   (string \<rightharpoonup> IntParameterValue) \<Rightarrow> (string \<rightharpoonup> StringParameterValue) \<Rightarrow>
   error + (string \<rightharpoonup> IntParameterValue) \<times> (string \<rightharpoonup> StringParameterValue)" where
  "rangeRep paramDefinitions [] intParams stringParams = Inr (intParams, stringParams)"
| "rangeRep paramDefinitions ((k, v) # kvs) intParams stringParams =
     (if k = ''$'' then rangeRep paramDefinitions kvs intParams stringParams
      else case paramDefinitions k of
        None \<Rightarrow> Inl (Errorf ''could not find descriptor for parameter %v'' [k] None)
      | Some descriptor \<Rightarrow>
          if k \<in> set knownIntParams then
            (case ParseInt v 16 of
               Inl err \<Rightarrow> Inl (Errorf ''failed to parse known int value %v: %w'' [k] (Some err))
             | Inr n \<Rightarrow>
                 rangeRep paramDefinitions kvs
                   (intParams(k \<mapsto> \<lparr>ipv_Descriptor = descriptor, ipv_Value = n\<rparr>))
                   stringParams)
          else
            rangeRep paramDefinitions kvs intParams
              (stringParams(k \<mapsto> \<lparr>spv_Descriptor = descriptor, spv_Value = v\<rparr>)))"

text \<open>The body of the loop over \<open>entry.Rep\<close> (lines 337 to 389): one record to one Forecast.\<close>

definition convertRep ::
  "(string \<rightharpoonup> ParameterDescriptor) \<Rightarrow> Time \<Rightarrow> rep \<Rightarrow> error + Forecast" where
  "convertRep paramDefinitions periodTime r =
     (case map_of r ''$'' of
        None \<Rightarrow> Inl (New ''could not find forecast offset'')
      | Some offsetString \<Rightarrow>
          (case forecastOffset offsetString of
             Inl err \<Rightarrow> Inl err
           | Inr offset \<Rightarrow>
               (case rangeRep paramDefinitions r Map.empty Map.empty of
                  Inl err \<Rightarrow> Inl err
                | Inr (intParams, stringParams) \<Rightarrow>
                    Inr \<lparr>Forecast_Time = Add periodTime (offset * Second),
                         IntParams = intParams,
                         StringParams = stringParams\<rparr>)))"

fun convertReps ::
  "(string \<rightharpoonup> ParameterDescriptor) \<Rightarrow> Time \<Rightarrow> rep list \<Rightarrow> error + Forecast list" where
  "convertReps paramDefinitions periodTime [] = Inr []"
| "convertReps paramDefinitions periodTime (r # rs) =
     (case convertRep paramDefinitions periodTime r of
        Inl err \<Rightarrow> Inl err
      | Inr f \<Rightarrow>
          (case convertReps paramDefinitions periodTime rs of
             Inl err \<Rightarrow> Inl err
           | Inr fs \<Rightarrow> Inr (f # fs)))"

text \<open>The body of the loop over \<open>entry.Period\<close> (lines 330 to 396).\<close>

definition convertPeriod ::
  "('f, 'x) stdlib_scheme \<Rightarrow> (string \<rightharpoonup> ParameterDescriptor) \<Rightarrow> periodEntry \<Rightarrow> error + Period" where
  "convertPeriod L paramDefinitions entry =
     (case time_Parse L ''2006-01-02Z'' (pe_Value entry) of
        Inl err \<Rightarrow> Inl (Errorf ''failed to parse period offset: %w'' [] (Some err))
      | Inr periodTime \<Rightarrow>
          (case convertReps paramDefinitions periodTime (pe_Rep entry) of
             Inl err \<Rightarrow> Inl err
           | Inr forecasts \<Rightarrow>
               Inr \<lparr>Period_Type = pe_Type entry,
                    Period_Time = periodTime,
                    Period_Forecasts = forecasts\<rparr>))"

fun convertPeriods ::
  "('f, 'x) stdlib_scheme \<Rightarrow> (string \<rightharpoonup> ParameterDescriptor) \<Rightarrow> periodEntry list \<Rightarrow>
   error + Period list" where
  "convertPeriods L paramDefinitions [] = Inr []"
| "convertPeriods L paramDefinitions (p # ps) =
     (case convertPeriod L paramDefinitions p of
        Inl err \<Rightarrow> Inl err
      | Inr q \<Rightarrow>
          (case convertPeriods L paramDefinitions ps of
             Inl err \<Rightarrow> Inl err
           | Inr qs \<Rightarrow> Inr (q # qs)))"

text \<open>
  \<open>convertLocation\<close> returns a Go pair \<open>(*SiteRep, error)\<close>: the pointer is \<open>None\<close> for
  \<open>nil\<close>, the error is \<open>None\<close> for \<open>nil\<close>.
\<close>

definition convertLocation ::
  "('f::zero, 'x) stdlib_scheme \<Rightarrow> (string \<rightharpoonup> ParameterDescriptor) \<Rightarrow> string \<Rightarrow> Time \<Rightarrow>
   locationEntry \<Rightarrow> 'f SiteRep option \<times> error option" where
  "convertLocation L paramDefinitions typeName startTime entry =
     (case convertPeriods L paramDefinitions (le_Period entry) of
        Inl err \<Rightarrow> (None, Some err)
      | Inr periods \<Rightarrow>
     (case ParseInt (le_Id entry) 64 of
        Inl err \<Rightarrow> (None, Some (Errorf ''failed to parse id: %w'' [] (Some err)))
      | Inr id' \<Rightarrow>
     (case ParseFloat L (le_Latitude entry) of
        Inl err \<Rightarrow> (None, Some (Errorf ''failed to parse latitude: %w'' [] (Some err)))
      | Inr lat \<Rightarrow>
     (case ParseFloat L (le_Longitude entry) of
        Inl err \<Rightarrow> (None, Some (Errorf ''failed to parse longitude: %w'' [] (Some err)))
      | Inr lon \<Rightarrow>
     (case (if le_Elevation entry \<noteq> '''' then ParseFloat L (le_Elevation entry) else Inr 0) of
        Inl err \<Rightarrow> (None, Some (Errorf ''failed to parse elevation: %w'' [] (Some err)))
      | Inr elevation \<Rightarrow>
          (Some \<lparr>SiteRep_DataDate = startTime,
                 SiteRep_Type = typeName,
                 SiteRep_Location =
                   \<lparr>LocationRep_Id = id',
                    LocationRep_Latitude = lat,
                    LocationRep_Longitude = lon,
                    LocationRep_Name = le_Name entry,
                    LocationRep_Country = le_Country entry,
                    LocationRep_Continent = le_Continent entry,
                    LocationRep_Elevation = elevation,
                    LocationRep_Period = periods\<rparr>\<rparr>,
           None))))))"

section \<open>client.go: the transport\<close>

text \<open>
  \<open>url.QueryEscape\<close>: letters, digits and \<open>- _ . ~\<close> are kept, a space becomes \<open>+\<close>, every
  other byte becomes \<open>%XX\<close> in upper-case hexadecimal (\<open>shouldEscape\<close> in mode
  \<open>encodeQueryComponent\<close>).
\<close>

definition shouldEscape :: "char \<Rightarrow> bool" where
  "shouldEscape c =
     (let n = (of_char c :: nat) in
      \<not> ((97 \<le> n \<and> n \<le> 122) \<or> (65 \<le> n \<and> n \<le> 90) \<or> (48 \<le> n \<and> n \<le> 57)
         \<or> c = CHR ''-'' \<or> c = CHR ''_'' \<or> c = CHR ''.'' \<or> c = CHR ''~''))"

definition upperhex :: "nat \<Rightarrow> char" where
  "upperhex n = ''0123456789ABCDEF'' ! n"

definition escapeByte :: "char \<Rightarrow> string" where
  "escapeByte c =
     (if c = CHR '' '' then ''+''
      else if shouldEscape c then
        [CHR ''%'', upperhex ((of_char c :: nat) div 16), upperhex ((of_char c :: nat) mod 16)]
      else [c])"

definition QueryEscape :: "string \<Rightarrow> string" where
  "QueryEscape s = concat (map escapeByte s)"

text \<open>
  What \<open>httpClient.Get\<close> hands back: the status code, the outcome of reading the body to
  its end (\<open>io.ReadAll\<close>) and the outcome of closing it.
\<close>

record Response =
  StatusCode :: int
  Body :: "error + string"
  BodyClose :: "error option"

text \<open>
  The client. \<open>apiKeySupplier\<close> is the string the supplier's \<open>Get\<close> returns to this call
  (\<open>NewClient\<close> refuses a client without a supplier); \<open>httpClient\<close> is \<open>httpClient.Get\<close>.
\<close>

record DataPointClient =
  apiKeySupplier :: string
  baseUrl :: string
  httpClient :: "string \<Rightarrow> error + Response"

text \<open>The loop that appends the query parameters (lines 398 to 402 of the transport).\<close>

fun appendParams :: "string \<Rightarrow> (string \<times> string) list \<Rightarrow> string" where
  "appendParams withKey [] = withKey"
| "appendParams withKey ((k, v) # kvs) =
     appendParams (withKey @ ''&'' @ QueryEscape k @ ''='' @ QueryEscape v) kvs"

definition requestURL :: "string \<Rightarrow> string \<Rightarrow> (string \<times> string) list option \<Rightarrow> string" where
  "requestURL target key params =
     (case params of
        None \<Rightarrow> target @ ''?key='' @ key
      | Some kvs \<Rightarrow> appendParams (target @ ''?key='' @ key) kvs)"

text \<open>
  \<open>fetch\<close> returns \<open>(body, target, err)\<close> and writes at most one warning. A \<open>nil\<close> body is
  the empty string: no reader of the body tells them apart.
\<close>

definition fetch ::
  "('f, 'x) stdlib_scheme \<Rightarrow> DataPointClient \<Rightarrow> string \<Rightarrow> string \<Rightarrow>
   (string \<times> string) list option \<Rightarrow> (string \<times> string \<times> error option) \<times> logEntry list" where
  "fetch L d description suffix params =
     (case url_JoinPath L (baseUrl d) suffix of
        Inl err \<Rightarrow>
          (('''', ''???'', Some (Errorf ''failed to generate %v url: %w'' [description] (Some err))), [])
      | Inr target \<Rightarrow>
          (case httpClient d (requestURL target (apiKeySupplier d) params) of
             Inl err \<Rightarrow>
               (('''', target,
                 Some (Errorf ''failed to query %v for %v: %w'' [target, description] (Some err))), [])
           | Inr r \<Rightarrow>
               (case Body r of
                  Inl err \<Rightarrow>
                    ('''', target,
                     Some (Errorf ''failed to read body from response from %v for %v: %w''
                             [target, description] (Some err)))
                | Inr body \<Rightarrow> (body, target, None),
                case BodyClose r of
                  None \<Rightarrow> []
                | Some err \<Rightarrow> [Warn ''failed to close body from query'' [description] (Some err)])))"

section \<open>val.go: the site list and the time steps\<close>

text \<open>The body of the loop of \<open>siteList\<close> (lines 75 to 105) with the warning it may log.\<close>

definition convertSite ::
  "('f::zero, 'x) stdlib_scheme \<Rightarrow> siteLocation \<Rightarrow> (error + 'f Site) \<times> logEntry list" where
  "convertSite L site =
     (case ParseFloat L (sl_Latitude site) of
        Inl err \<Rightarrow>
          (Inl (Errorf ''failed to parse latitude %v for sitelist: %w'' [sl_Latitude site] (Some err)), [])
      | Inr latitude \<Rightarrow>
     (case ParseFloat L (sl_Longitude site) of
        Inl err \<Rightarrow>
          (Inl (Errorf ''failed to parse longitude %v for sitelist: %w'' [sl_Longitude site] (Some err)), [])
      | Inr longitude \<Rightarrow>
     (case ParseInt (sl_Id site) 64 of
        Inl err \<Rightarrow>
          (Inl (Errorf ''failed to parse id %v for sitelist: %w'' [sl_Id site] (Some err)), [])
      | Inr id' \<Rightarrow>
          (case (if sl_Elevation site \<noteq> '''' then
                   (case ParseFloat L (sl_Elevation site) of
                      Inl err \<Rightarrow>
                        (0, [Warn ''failed to parse elevation'' [sl_Elevation site] (Some err)])
                    | Inr elev \<Rightarrow> (elev, []))
                 else (0, [])) of
             (elevation, warnings) \<Rightarrow>
               (Inr \<lparr>Site_Id = id',
                     Site_Latitude = latitude,
                     Site_Longitude = longitude,
                     Site_Name = sl_Name site,
                     Site_Elevation = elevation,
                     Site_Region = sl_Region site,
                     Site_UnitaryAuthArea = sl_UnitaryAuthArea site\<rparr>,
                warnings)))))"







section \<open>val.go: the five day forecast\<close>

text \<open>\<open>strconv.Itoa\<close>, on unbounded integers.\<close>

definition digitChar :: "int \<Rightarrow> char" where
  "digitChar n = ''0123456789'' ! nat n"

function utoa :: "int \<Rightarrow> string" where
  "utoa n = (if n < 10 then [digitChar n] else utoa (n div 10) @ [digitChar (n mod 10)])"
  by pat_completeness auto
termination
  by (relation "measure nat") auto

declare utoa.simps [simp del]

definition Itoa :: "int \<Rightarrow> string" where
  "Itoa i = (if i < 0 then CHR ''-'' # utoa (- i) else utoa i)"

text \<open>The loop that builds \<open>paramDefinitions\<close> from the \<open>Param\<close> side table.\<close>

fun buildParamDefinitions ::
  "(string \<rightharpoonup> ParameterDescriptor) \<Rightarrow> wxParam list \<Rightarrow> (string \<rightharpoonup> ParameterDescriptor)" where
  "buildParamDefinitions paramDefinitions [] = paramDefinitions"
| "buildParamDefinitions paramDefinitions (p # ps) =
     buildParamDefinitions
       (paramDefinitions(wx_Name p \<mapsto>
          \<lparr>pd_Name = wx_Name p, pd_Units = wx_Units p, pd_Description = wx_Description p\<rparr>))
       ps"

text \<open>
  The query parameters of the two forecast calls. The optional instant \<open>at\<close> is given by
  the text \<open>at.Format(time.RFC3339)\<close> yields for it, \<open>None\<close> for a \<open>nil\<close> pointer.
\<close>

definition forecastParams ::
  "('f, 'x) stdlib_scheme \<Rightarrow> string \<Rightarrow> string option \<Rightarrow> (string \<times> string) list" where
  "forecastParams L resolution at' =
     rangeOrder L
       ((''res'', resolution) #
        (case at' of None \<Rightarrow> [] | Some t \<Rightarrow> [(''time'', t)]))"

definition FiveDayForecast ::
  "('f::zero, 'x) stdlib_scheme \<Rightarrow> DataPointClient \<Rightarrow> (string \<Rightarrow> error + siteRepResponse) \<Rightarrow>
   string \<Rightarrow> int \<Rightarrow> string option \<Rightarrow> ('f SiteRep option \<times> error option) \<times> logEntry list" where
  "FiveDayForecast L d Unmarshal resolution locationID at' =
     (case fetch L d ''locationId'' (''val/wxfcs/all/json/'' @ Itoa locationID)
             (Some (forecastParams L resolution at')) of
        ((body, target, Some err), w) \<Rightarrow> ((None, Some err), w)
      | ((body, target, None), w) \<Rightarrow>
          (case Unmarshal body of
             Inl err \<Rightarrow>
               ((None, Some (Errorf ''failed to deserialise body from %v for sitelist: %w''
                               [target] (Some err))), w)
           | Inr result \<Rightarrow>
               if le_Id (dv_Location (srr_Dv result)) = '''' then ((None, None), w)
               else
                 (case time_Parse L RFC3339 (dv_DataDate (srr_Dv result)) of
                    Inl err \<Rightarrow>
                      ((None, Some (Errorf ''failed to parse period start time: %w'' [] (Some err))), w)
                  | Inr startTime \<Rightarrow>
                      (convertLocation L (buildParamDefinitions Map.empty (srr_Wx result))
                         (dv_Type (srr_Dv result)) startTime (dv_Location (srr_Dv result)), w))))"




section \<open>txt.go: extremes and regional forecasts\<close>

record extremeCapabilitiesResponse =
  ecr_ExtremeDate :: string
  ecr_IssuedAt :: string

record ExtremeCapabilities =
  ExtremeCapabilities_ExtremeDate :: Time
  ExtremeCapabilities_IssuedAt :: Time

definition UkExtremesCapabilities ::
  "('f, 'x) stdlib_scheme \<Rightarrow> DataPointClient \<Rightarrow> (string \<Rightarrow> error + extremeCapabilitiesResponse) \<Rightarrow>
   (ExtremeCapabilities option \<times> error option) \<times> logEntry list" where
  "UkExtremesCapabilities L d Unmarshal =
     (case fetch L d ''sitelist'' ''txt/wxobs/ukextremes/json/capabilities'' None of
        ((body, target, Some err), w) \<Rightarrow> ((None, Some err), w)
      | ((body, target, None), w) \<Rightarrow>
          (case Unmarshal body of
             Inl err \<Rightarrow>
               ((None, Some (Errorf ''failed to deserialise body from %v for capabilities: %w''
                               [target] (Some err))), w)
           | Inr result \<Rightarrow>
               (case time_Parse L DateOnly (ecr_ExtremeDate result) of
                  Inl err \<Rightarrow>
                    ((None, Some (Errorf ''failed to parse date %v for extreme date: %w''
                                    [ecr_ExtremeDate result] (Some err))), w)
                | Inr extremeDate \<Rightarrow>
                    (case time_Parse L RFC3339 (ecr_IssuedAt result) of
                       Inl err \<Rightarrow>
                         ((None, Some (Errorf ''failed to parse date %v for issued at date: %w''
                                         [ecr_IssuedAt result] (Some err))), w)
                     | Inr issuedAt \<Rightarrow>
                         ((Some \<lparr>ExtremeCapabilities_ExtremeDate = extremeDate,
                                  ExtremeCapabilities_IssuedAt = issuedAt\<rparr>,
                           None), w)))))"















record regionalForecastCapabilitiesResponse =
  rfc_IssuedAt :: string

record RegionalForecastCapabilities =
  RegionalForecastCapabilities_IssuedAt :: Time

text \<open>
  Line 245 reads \<open>time.Parse(result.RegionalForecast.IssuedAt, time.RFC3339)\<close>: the field
  of the response is the first argument (the layout) and the constant is the second (the
  value). The model passes the arguments as the source does.
\<close>

definition RegionalForecastCapabilities ::
  "('f, 'x) stdlib_scheme \<Rightarrow> DataPointClient \<Rightarrow>
   (string \<Rightarrow> error + regionalForecastCapabilitiesResponse) \<Rightarrow>
   (RegionalForecastCapabilities option \<times> error option) \<times> logEntry list" where
  "RegionalForecastCapabilities L d Unmarshal =
     (case fetch L d ''regional forecast capabilities''
             ''txt/wxfcs/regionalforecast/json/capabilities'' None of
        ((body, target, Some err), w) \<Rightarrow> ((None, Some err), w)
      | ((body, target, None), w) \<Rightarrow>
          (case Unmarshal body of
             Inl err \<Rightarrow>
               ((None, Some (Errorf ''failed to deserialise body from %v for regional forecast capabilities: %w''
                               [target] (Some err))), w)
           | Inr result \<Rightarrow>
               (case time_Parse L (rfc_IssuedAt result) RFC3339 of
                  Inl err \<Rightarrow>
                    ((None, Some (Errorf ''failed to parse issued at time: %w'' [] (Some err))), w)
                | Inr issued \<Rightarrow>
                    ((Some \<lparr>RegionalForecastCapabilities_IssuedAt = issued\<rparr>, None), w))))"

section \<open>The library functions, modelled for the examples\<close>

text \<open>
  The closed examples below need a library to run. This section models the three library
  functions on the part of their input they are evaluated on, from the Go sources
  (\<open>time/format.go\<close>, \<open>strconv/atof.go\<close>, \<open>net/url/url.go\<close>), and answers \<open>External\<close>
  outside that part; no theorem stated for every library \<open>L\<close> depends on it.

  \<^item> \<open>go_time_Parse\<close> follows \<open>time.Parse\<close>: \<open>nextStdChunk\<close> finds the next element of the
    layout, \<open>skip\<close> matches the literal text before it, the element reads its digits, and
    the date is validated at the end. The elements modelled are those of the three layouts
    of the client (\<open>2006\<close>, \<open>01\<close>, \<open>02\<close>, \<open>15\<close>, \<open>04\<close>, \<open>05\<close>, \<open>Z07:00\<close>, and a fraction of a
    second in the value) and the short forms \<open>1\<close>, \<open>2\<close>, \<open>4\<close>, \<open>5\<close>; every other element ends
    the parse as \<open>Unmodelled\<close>. The instant is in UTC unless the value carries an offset.
  \<^item> \<open>go_ParseFloat\<close> follows \<open>strconv.ParseFloat\<close> on decimal numerals without exponent:
    an optional sign, digits with at most one point, at least one digit. Its result is the
    real number the numeral denotes, which Go rounds to the nearest \<open>float64\<close>.
  \<^item> \<open>go_JoinPath\<close> follows \<open>url.JoinPath\<close> on the default base URI of \<open>NewClient\<close> and a
    suffix of plain segments, where the result is the concatenation.
\<close>

subsection \<open>time.Parse\<close>

datatype std =
    stdLongYear | stdZeroMonth | stdNumMonth | stdZeroDay | stdDay | stdHour
  | stdZeroMinute | stdMinute | stdZeroSecond | stdSecond | stdISO8601ColonTZ
  | stdUnmodelled

datatype 'a outcome = Ok 'a | Bad | Unmodelled

definition hasPrefix :: "string \<Rightarrow> string \<Rightarrow> bool" where
  "hasPrefix s p = (take (length p) s = p)"

definition startsWithLowerCase :: "string \<Rightarrow> bool" where
  "startsWithLowerCase s =
     (case s of [] \<Rightarrow> False | c # cs \<Rightarrow> 97 \<le> (of_char c :: nat) \<and> (of_char c :: nat) \<le> 122)"

definition isDigitAt :: "string \<Rightarrow> bool" where
  "isDigitAt s = (case s of [] \<Rightarrow> False | c # cs \<Rightarrow> isDigit c)"

definition stdAt :: "string \<Rightarrow> (std \<times> string) option" where
  "stdAt layout =
     (case layout of
        [] \<Rightarrow> None
      | c # cs \<Rightarrow>
          if c = CHR ''J'' then
            (if hasPrefix layout ''Jan'' \<and>
                (hasPrefix layout ''January'' \<or> \<not> startsWithLowerCase (drop 3 layout))
             then Some (stdUnmodelled, []) else None)
          else if c = CHR ''M'' then
            (if hasPrefix layout ''Mon'' \<and>
                (hasPrefix layout ''Monday'' \<or> \<not> startsWithLowerCase (drop 3 layout))
             then Some (stdUnmodelled, [])
             else if hasPrefix layout ''MST'' then Some (stdUnmodelled, [])
             else None)
          else if c = CHR ''0'' then
            (if hasPrefix cs ''1'' then Some (stdZeroMonth, drop 1 cs)
             else if hasPrefix cs ''2'' then Some (stdZeroDay, drop 1 cs)
             else if hasPrefix cs ''3'' then Some (stdUnmodelled, [])
             else if hasPrefix cs ''4'' then Some (stdZeroMinute, drop 1 cs)
             else if hasPrefix cs ''5'' then Some (stdZeroSecond, drop 1 cs)
             else if hasPrefix cs ''6'' then Some (stdUnmodelled, [])
             else if hasPrefix cs ''02'' then Some (stdUnmodelled, [])
             else None)
          else if c = CHR ''1'' then
            (if hasPrefix cs ''5'' then Some (stdHour, drop 1 cs) else Some (stdNumMonth, cs))
          else if c = CHR ''2'' then
            (if hasPrefix layout ''2006'' then Some (stdLongYear, drop 3 cs) else Some (stdDay, cs))
          else if c = CHR ''_'' then
            (if hasPrefix cs ''2'' then
               (if hasPrefix cs ''2006'' then None else Some (stdUnmodelled, []))
             else if hasPrefix cs ''_2'' then Some (stdUnmodelled, [])
             else None)
          else if c = CHR ''3'' then Some (stdUnmodelled, [])
          else if c = CHR ''4'' then Some (stdMinute, cs)
          else if c = CHR ''5'' then Some (stdSecond, cs)
          else if c = CHR ''P'' then (if hasPrefix cs ''M'' then Some (stdUnmodelled, []) else None)
          else if c = CHR ''p'' then (if hasPrefix cs ''m'' then Some (stdUnmodelled, []) else None)
          else if c = CHR ''-'' then (if hasPrefix cs ''07'' then Some (stdUnmodelled, []) else None)
          else if c = CHR ''Z'' then
            (if hasPrefix layout ''Z070000'' then Some (stdUnmodelled, [])
             else if hasPrefix layout ''Z07:00:00'' then Some (stdUnmodelled, [])
             else if hasPrefix layout ''Z0700'' then Some (stdUnmodelled, [])
             else if hasPrefix layout ''Z07:00'' then Some (stdISO8601ColonTZ, drop 5 cs)
             else if hasPrefix layout ''Z07'' then Some (stdUnmodelled, [])
             else None)
          else if c = CHR ''.'' \<or> c = CHR '','' then
            (case cs of
               [] \<Rightarrow> None
             | ch # r \<Rightarrow>
                 if (ch = CHR ''0'' \<or> ch = CHR ''9'') \<and> \<not> isDigitAt (dropWhile (\<lambda>x. x = ch) cs)
                 then Some (stdUnmodelled, []) else None)
          else None)"

fun nextStdChunk :: "string \<Rightarrow> string \<times> std option \<times> string" where
  "nextStdChunk [] = ([], None, [])"
| "nextStdChunk (c # cs) =
     (case stdAt (c # cs) of
        Some (s, suffix) \<Rightarrow> ([], Some s, suffix)
      | None \<Rightarrow> (case nextStdChunk cs of (prefix, s, suffix) \<Rightarrow> (c # prefix, s, suffix)))"

definition cutspace :: "string \<Rightarrow> string" where
  "cutspace s = dropWhile (\<lambda>c. c = CHR '' '') s"

function skip :: "string \<Rightarrow> string \<Rightarrow> string option" where
  "skip v [] = Some v"
| "skip v (p # prefix) =
     (if p = CHR '' '' then
        (if v \<noteq> [] \<and> hd v \<noteq> CHR '' '' then None else skip (cutspace v) (cutspace prefix))
      else if v = [] \<or> hd v \<noteq> p then None
      else skip (tl v) prefix)"
  by pat_completeness auto
termination
  by (relation "measure (\<lambda>(v, p). length p)")
     (auto simp: cutspace_def intro: le_imp_less_Suc length_dropWhile_le)

definition getnum :: "string \<Rightarrow> bool \<Rightarrow> (int \<times> string) option" where
  "getnum s fixed =
     (case s of
        [] \<Rightarrow> None
      | c0 # r0 \<Rightarrow>
          if \<not> isDigit c0 then None
          else if \<not> isDigitAt r0 then (if fixed then None else Some (digitVal c0, r0))
          else Some (digitVal c0 * 10 + digitVal (hd r0), tl r0))"

fun digitsVal :: "int \<Rightarrow> string \<Rightarrow> int" where
  "digitsVal n [] = n"
| "digitsVal n (c # cs) = digitsVal (n * 10 + digitVal c) cs"

record fields =
  f_year :: int
  f_month :: int
  f_day :: int
  f_hour :: int
  f_min :: int
  f_sec :: int
  f_nsec :: int
  f_utc :: bool
  f_zoneOffset :: int

definition parseStd :: "std \<Rightarrow> string \<Rightarrow> string \<Rightarrow> fields \<Rightarrow> (string \<times> fields) outcome" where
  "parseStd s layout v st =
     (case s of
        stdUnmodelled \<Rightarrow> Unmodelled
      | stdLongYear \<Rightarrow>
          if length v < 4 \<or> \<not> list_all isDigit (take 4 v) then Bad
          else Ok (drop 4 v, st\<lparr>f_year := digitsVal 0 (take 4 v)\<rparr>)
      | stdNumMonth \<Rightarrow>
          (case getnum v False of None \<Rightarrow> Bad
           | Some (n, r) \<Rightarrow> if n \<le> 0 \<or> 12 < n then Bad else Ok (r, st\<lparr>f_month := n\<rparr>))
      | stdZeroMonth \<Rightarrow>
          (case getnum v True of None \<Rightarrow> Bad
           | Some (n, r) \<Rightarrow> if n \<le> 0 \<or> 12 < n then Bad else Ok (r, st\<lparr>f_month := n\<rparr>))
      | stdDay \<Rightarrow>
          (case getnum v False of None \<Rightarrow> Bad | Some (n, r) \<Rightarrow> Ok (r, st\<lparr>f_day := n\<rparr>))
      | stdZeroDay \<Rightarrow>
          (case getnum v True of None \<Rightarrow> Bad | Some (n, r) \<Rightarrow> Ok (r, st\<lparr>f_day := n\<rparr>))
      | stdHour \<Rightarrow>
          (case getnum v False of None \<Rightarrow> Bad
           | Some (n, r) \<Rightarrow> if 24 \<le> n then Bad else Ok (r, st\<lparr>f_hour := n\<rparr>))
      | stdMinute \<Rightarrow>
          (case getnum v False of None \<Rightarrow> Bad
           | Some (n, r) \<Rightarrow> if 60 \<le> n then Bad else Ok (r, st\<lparr>f_min := n\<rparr>))
      | stdZeroMinute \<Rightarrow>
          (case getnum v True of None \<Rightarrow> Bad
           | Some (n, r) \<Rightarrow> if 60 \<le> n then Bad else Ok (r, st\<lparr>f_min := n\<rparr>))
      | stdISO8601ColonTZ \<Rightarrow>
          if v \<noteq> [] \<and> hd v = CHR ''Z'' then Ok (tl v, st\<lparr>f_utc := True\<rparr>)
          else if length v < 6 then Bad
          else if v ! 3 \<noteq> CHR '':'' then Bad
          else
            (case (getnum (take 2 (drop 1 v)) True, getnum (take 2 (drop 4 v)) True) of
               (Some (hr, r1), Some (mm, r2)) \<Rightarrow>
                 if hr > 24 \<or> mm > 60 then Bad
                 else if v ! 0 = CHR ''+'' then
                   Ok (drop 6 v, st\<lparr>f_zoneOffset := (hr * 60 + mm) * 60\<rparr>)
                 else if v ! 0 = CHR ''-'' then
                   Ok (drop 6 v, st\<lparr>f_zoneOffset := - ((hr * 60 + mm) * 60)\<rparr>)
                 else Bad
             | _ \<Rightarrow> Bad)
      | _ \<Rightarrow>
          (case getnum v (s = stdZeroSecond) of None \<Rightarrow> Bad
           | Some (n, r) \<Rightarrow>
               if 60 \<le> n then Bad
               else if length r \<ge> 2 \<and> (hd r = CHR ''.'' \<or> hd r = CHR '','') \<and> isDigit (r ! 1) then
                 (case nextStdChunk layout of
                    (prefix, Some stdUnmodelled, suffix) \<Rightarrow> Unmodelled
                  | _ \<Rightarrow>
                      (let ds = takeWhile isDigit (tl r);
                           ds9 = take 9 ds
                       in Ok (drop (length ds) (tl r),
                              st\<lparr>f_sec := n, f_nsec := digitsVal 0 ds9 * 10 ^ (9 - length ds9)\<rparr>)))
               else Ok (r, st\<lparr>f_sec := n\<rparr>)))"

definition isLeap :: "int \<Rightarrow> bool" where
  "isLeap year = (year mod 4 = 0 \<and> (year mod 100 \<noteq> 0 \<or> year mod 400 = 0))"

definition daysIn :: "int \<Rightarrow> int \<Rightarrow> int" where
  "daysIn m year =
     (if m = 2 then (if isLeap year then 29 else 28)
      else if m = 4 \<or> m = 6 \<or> m = 9 \<or> m = 11 then 30 else 31)"

definition daysSinceEpoch :: "int \<Rightarrow> int \<Rightarrow> int \<Rightarrow> int" where
  "daysSinceEpoch year m d =
     (let y = (if m \<le> 2 then year - 1 else year);
          era = y div 400;
          yoe = y - era * 400;
          doy = (153 * (if m > 2 then m - 3 else m + 9) + 2) div 5 + d - 1;
          doe = yoe * 365 + yoe div 4 - yoe div 100 + doy
      in era * 146097 + doe - 719468)"

definition Date :: "int \<Rightarrow> int \<Rightarrow> int \<Rightarrow> int \<Rightarrow> int \<Rightarrow> int \<Rightarrow> int \<Rightarrow> Time" where
  "Date year m d hour mi sec nsec =
     (((daysSinceEpoch year m d * 24 + hour) * 60 + mi) * 60 + sec) * Second + nsec"

definition finish :: "fields \<Rightarrow> Time outcome" where
  "finish st =
     (let month = (if f_month st < 0 then 1 else f_month st);
          day = (if f_day st < 0 then 1 else f_day st)
      in if day < 1 \<or> day > daysIn month (f_year st) then Bad
         else
           (let t = Date (f_year st) month day (f_hour st) (f_min st) (f_sec st) (f_nsec st)
            in if f_utc st then Ok t
               else if f_zoneOffset st \<noteq> - 1 then Ok (t - f_zoneOffset st * Second)
               else Ok t))"

function parseLoop :: "string \<Rightarrow> string \<Rightarrow> fields \<Rightarrow> Time outcome" where
  "parseLoop layout v st =
     (case nextStdChunk layout of
        (prefix, std, suffix) \<Rightarrow>
          (case skip v prefix of
             None \<Rightarrow> Bad
           | Some v1 \<Rightarrow>
               (case std of
                  None \<Rightarrow> if v1 \<noteq> [] then Bad else finish st
                | Some s \<Rightarrow>
                    (case parseStd s suffix v1 st of
                       Bad \<Rightarrow> Bad
                     | Unmodelled \<Rightarrow> Unmodelled
                     | Ok (v2, st') \<Rightarrow> parseLoop suffix v2 st'))))"
  by pat_completeness auto
termination
proof -
  have stdAt_shorter: "length suffix < length layout"
    if "stdAt layout = Some (s, suffix)" for layout s suffix
    using that by (auto simp: stdAt_def split: list.splits if_splits)
  have nextStdChunk_shorter: "length suffix < length layout"
    if "nextStdChunk layout = (prefix, Some s, suffix)" for layout prefix s suffix
    using that
  proof (induction layout arbitrary: prefix)
    case Nil
    then show ?case by simp
  next
    case (Cons c cs)
    show ?case
    proof (cases "stdAt (c # cs)")
      case None
      with Cons.prems obtain p where "nextStdChunk cs = (p, Some s, suffix)"
        by (auto split: prod.splits)
      from Cons.IH [OF this] show ?thesis by simp
    next
      case (Some a)
      with Cons.prems have "stdAt (c # cs) = Some (s, suffix)"
        by (cases a) auto
      then show ?thesis by (rule stdAt_shorter)
    qed
  qed
  show ?thesis
    by (relation "measure (\<lambda>(layout, v, st). length layout)")
       (auto dest: nextStdChunk_shorter [OF sym])
qed

declare parseLoop.simps [simp del]

definition go_time_Parse :: "string \<Rightarrow> string \<Rightarrow> error + Time" where
  "go_time_Parse layout v =
     (case parseLoop layout v
             \<lparr>f_year = 0, f_month = - 1, f_day = - 1, f_hour = 0, f_min = 0, f_sec = 0,
              f_nsec = 0, f_utc = False, f_zoneOffset = - 1\<rparr> of
        Ok t \<Rightarrow> Inr t
      | Bad \<Rightarrow> Inl (ParseError layout v)
      | Unmodelled \<Rightarrow> Inl (External ''layout outside the modelled elements''))"


subsection \<open>strconv.ParseFloat\<close>

definition isLetter :: "char \<Rightarrow> bool" where
  "isLetter c =
     ((97 \<le> (of_char c :: nat) \<and> (of_char c :: nat) \<le> 122) \<or>
      (65 \<le> (of_char c :: nat) \<and> (of_char c :: nat) \<le> 90))"

definition go_ParseFloat :: "string \<Rightarrow> error + real" where
  "go_ParseFloat s =
     (let neg = hasPrefix s ''-'';
          body = (if hasPrefix s ''+'' \<or> hasPrefix s ''-'' then tl s else s);
          ip = takeWhile isDigit body;
          r = dropWhile isDigit body;
          fp = (if hasPrefix r ''.'' then takeWhile isDigit (tl r) else []);
          rest = (if hasPrefix r ''.'' then dropWhile isDigit (tl r) else r);
          m = digitsVal 0 (ip @ fp);
          x = (of_int m / 10 ^ length fp :: real)
      in if CHR ''_'' \<in> set body \<or> hasPrefix body ''0x'' \<or> hasPrefix body ''0X''
            \<or> hasPrefix body ''i'' \<or> hasPrefix body ''I''
            \<or> hasPrefix body ''n'' \<or> hasPrefix body ''N''
         then Inl (External ''numeral outside the modelled syntax'')
         else if ip = [] \<and> fp = [] then Inl (NumError ''ParseFloat'' s ErrSyntax)
         else if hasPrefix rest ''e'' \<or> hasPrefix rest ''E''
         then Inl (External ''numeral outside the modelled syntax'')
         else if rest \<noteq> [] then Inl (NumError ''ParseFloat'' s ErrSyntax)
         else if m \<ge> (2 ^ 1024 - 2 ^ 970) * 10 ^ length fp
         then Inl (NumError ''ParseFloat'' s ErrRange)
         else Inr (if neg then - x else x))"

subsection \<open>url.JoinPath and the library of the examples\<close>

definition plainSegments :: "string \<Rightarrow> bool" where
  "plainSegments s =
     (s \<noteq> [] \<and> hd s \<noteq> CHR ''/'' \<and> last s \<noteq> CHR ''/''
      \<and> list_all (\<lambda>c. isLetter c \<or> isDigit c \<or> c = CHR ''-'' \<or> c = CHR ''/'') s
      \<and> list_all (\<lambda>(a, b). \<not> (a = CHR ''/'' \<and> b = CHR ''/'')) (zip s (tl s)))"

definition go_JoinPath :: "string \<Rightarrow> string \<Rightarrow> error + string" where
  "go_JoinPath base elem =
     (if base = ''http://datapoint.metoffice.gov.uk/public/data/'' \<and> plainSegments elem
      then Inr (base @ elem)
      else Inl (External ''URL outside the modelled ones''))"

definition golib :: "real stdlib" where
  "golib =
     \<lparr>ParseFloat = go_ParseFloat,
      time_Parse = go_time_Parse,
      url_JoinPath = go_JoinPath,
      rangeOrder = (\<lambda>kvs. kvs)\<rparr>"

section \<open>Example inputs\<close>

text \<open>
  A \<open>Param\<close> side table with a known-integer code (\<open>T\<close>) and two codes that are not on
  the list (\<open>V\<close>, \<open>D\<close>), and a location with one period of three records.
\<close>

definition exampleWx :: "wxParam list" where
  "exampleWx =
     [\<lparr>wx_Name = ''T'', wx_Units = ''C'', wx_Description = ''Temperature''\<rparr>,
      \<lparr>wx_Name = ''V'', wx_Units = ''m'', wx_Description = ''Visibility''\<rparr>,
      \<lparr>wx_Name = ''D'', wx_Units = ''compass'', wx_Description = ''Wind Direction''\<rparr>]"

definition examplePeriod :: periodEntry where
  "examplePeriod =
     \<lparr>pe_Type = ''Day'', pe_Value = ''2012-11-21Z'',
      pe_Rep = [[(''$'', ''180''), (''T'', ''12''), (''V'', ''35000''), (''D'', ''SSW'')],
                [(''$'', ''Day''), (''T'', ''-2''), (''V'', ''VG'')],
                [(''T'', ''7''), (''$'', ''Night'')]]\<rparr>"

definition exampleLocation :: locationEntry where
  "exampleLocation =
     \<lparr>le_Id = ''310069'', le_Latitude = ''50.7179'', le_Longitude = ''-3.5327'',
      le_Name = ''EXETER'', le_Country = ''ENGLAND'', le_Continent = ''EUROPE'',
      le_Elevation = ''27.0'', le_Period = [examplePeriod]\<rparr>"

text \<open>
  Variants of the example location: a known integer out of the 16-bit range, two codes
  without a descriptor (in the two orders in which \<open>range\<close> may visit them), and an
  elevation that is not a number.
\<close>

definition exampleOutOfRange :: locationEntry where
  "exampleOutOfRange =
     exampleLocation\<lparr>le_Period :=
       [\<lparr>pe_Type = ''Day'', pe_Value = ''2012-11-21Z'',
         pe_Rep = [[(''$'', ''180''), (''T'', ''40000'')]]\<rparr>]\<rparr>"

definition exampleTwoUnknown :: locationEntry where
  "exampleTwoUnknown =
     exampleLocation\<lparr>le_Period :=
       [\<lparr>pe_Type = ''Day'', pe_Value = ''2012-11-21Z'',
         pe_Rep = [[(''$'', ''0''), (''X'', ''1''), (''Y'', ''2'')]]\<rparr>]\<rparr>"

definition exampleTwoUnknownSwapped :: locationEntry where
  "exampleTwoUnknownSwapped =
     exampleLocation\<lparr>le_Period :=
       [\<lparr>pe_Type = ''Day'', pe_Value = ''2012-11-21Z'',
         pe_Rep = [[(''$'', ''0''), (''Y'', ''2''), (''X'', ''1'')]]\<rparr>]\<rparr>"

definition exampleBadElevation :: locationEntry where
  "exampleBadElevation = exampleLocation\<lparr>le_Elevation := ''abc''\<rparr>"

text \<open>
  The site of the end-to-end scenario of the specification, with no elevation, the same
  site with an elevation that is not a number, and the example location with no elevation.
\<close>

definition exampleSite :: siteLocation where
  "exampleSite =
     \<lparr>sl_Elevation = '''', sl_Id = ''310069'', sl_Latitude = ''50.7179'',
      sl_Longitude = ''-3.5327'', sl_Name = ''Exeter'', sl_Region = ''sw'',
      sl_UnitaryAuthArea = ''Devon''\<rparr>"

definition exampleSiteBadElevation :: siteLocation where
  "exampleSiteBadElevation = exampleSite\<lparr>sl_Elevation := ''abc''\<rparr>"

definition exampleNoElevation :: locationEntry where
  "exampleNoElevation = exampleLocation\<lparr>le_Elevation := ''''\<rparr>"

text \<open>
  A server that answers every request with the given status code and body, and a client
  of it with the default base URI.
\<close>

definition exampleServer :: "int \<Rightarrow> string \<Rightarrow> string \<Rightarrow> error + Response" where
  "exampleServer status body url = Inr \<lparr>StatusCode = status, Body = Inr body, BodyClose = None\<rparr>"

definition exampleClient :: "int \<Rightarrow> string \<Rightarrow> DataPointClient" where
  "exampleClient status body =
     \<lparr>apiKeySupplier = ''secret'',
      baseUrl = ''http://datapoint.metoffice.gov.uk/public/data/'',
      httpClient = exampleServer status body\<rparr>"

text \<open>
  A server that knows one URL only: it answers a request of that URL with status 200 and
  the given body, and any other request fails in the HTTP layer.
\<close>

definition exampleProbe :: "string \<Rightarrow> string \<Rightarrow> string \<Rightarrow> error + Response" where
  "exampleProbe known body url =
     (if url = known then Inr \<lparr>StatusCode = 200, Body = Inr body, BodyClose = None\<rparr>
      else Inl (External ''no such host''))"

definition exampleKeyClient :: "string \<Rightarrow> string \<Rightarrow> DataPointClient" where
  "exampleKeyClient key known =
     \<lparr>apiKeySupplier = key,
      baseUrl = ''http://datapoint.metoffice.gov.uk/public/data/'',
      httpClient = exampleProbe known ''{}''\<rparr>"

text \<open>Two outcomes of \<open>httpClient.Get\<close> that differ at most in the status code.\<close>

definition sameButStatus :: "error + Response \<Rightarrow> error + Response \<Rightarrow> bool" where
  "sameButStatus x y =
     (case (x, y) of
        (Inl e1, Inl e2) \<Rightarrow> e1 = e2
      | (Inr r1, Inr r2) \<Rightarrow> Body r1 = Body r2 \<and> BodyClose r1 = BodyClose r2
      | _ \<Rightarrow> False)"

text \<open>The bytes \<open>url.QueryEscape\<close> can produce.\<close>

definition queryByte :: "char \<Rightarrow> bool" where
  "queryByte c =
     (isLetter c \<or> isDigit c \<or> c = CHR ''-'' \<or> c = CHR ''_'' \<or> c = CHR ''.'' \<or> c = CHR ''~''
      \<or> c = CHR ''+'' \<or> c = CHR ''%'')"

text \<open>
  A stand-in for \<open>json.Unmarshal\<close> on one response: it decodes the body named \<open>text\<close> into
  \<open>v\<close> and rejects any other body. The bodies of the examples are named, not spelled out.
\<close>

definition exampleDecoder :: "string \<Rightarrow> 'a \<Rightarrow> string \<Rightarrow> error + 'a" where
  "exampleDecoder text v body =
     (if body = text then Inr v else Inl (External ''unexpected end of JSON input''))"

text \<open>
  The response of the service for a location it has no data for: the side table and the
  data date, and no \<open>Location\<close> object, which \<open>json.Unmarshal\<close> leaves at its zero value.
\<close>

definition exampleNoData :: siteRepResponse where
  "exampleNoData =
     \<lparr>srr_Wx = exampleWx,
      srr_Dv = \<lparr>dv_DataDate = ''2012-11-21T15:00:00Z'', dv_Type = ''Forecast'',
                dv_Location =
                  \<lparr>le_Id = '''', le_Latitude = '''', le_Longitude = '''', le_Name = '''',
                   le_Country = '''', le_Continent = '''', le_Elevation = '''',
                   le_Period = []\<rparr>\<rparr>\<rparr>"



section \<open>When a conversion returns a value\<close>

text \<open>
  The fields a conversion parses, as predicates on the wire data: an entry of a record
  converts when it is the \<open>$\<close> entry, or its key has a descriptor and, if the key is a
  known integer, its value parses; a record converts when it has a \<open>$\<close> value that decodes
  and all its entries convert; and so on up to the location.
\<close>

definition entryConverts :: "(string \<rightharpoonup> ParameterDescriptor) \<Rightarrow> string \<times> string \<Rightarrow> bool" where
  "entryConverts pd kv =
     (fst kv = ''$'' \<or>
      (pd (fst kv) \<noteq> None \<and> (fst kv \<in> set knownIntParams \<longrightarrow> \<not> isl (ParseInt (snd kv) 16))))"

definition repConverts :: "(string \<rightharpoonup> ParameterDescriptor) \<Rightarrow> rep \<Rightarrow> bool" where
  "repConverts pd r =
     ((case map_of r ''$'' of None \<Rightarrow> False | Some tok \<Rightarrow> \<not> isl (forecastOffset tok))
      \<and> list_all (entryConverts pd) r)"

definition periodConverts ::
  "('f, 'x) stdlib_scheme \<Rightarrow> (string \<rightharpoonup> ParameterDescriptor) \<Rightarrow> periodEntry \<Rightarrow> bool" where
  "periodConverts L pd p =
     (\<not> isl (time_Parse L ''2006-01-02Z'' (pe_Value p)) \<and> list_all (repConverts pd) (pe_Rep p))"

definition locationConverts ::
  "('f, 'x) stdlib_scheme \<Rightarrow> (string \<rightharpoonup> ParameterDescriptor) \<Rightarrow> locationEntry \<Rightarrow> bool" where
  "locationConverts L pd entry =
     (list_all (periodConverts L pd) (le_Period entry)
      \<and> \<not> isl (ParseInt (le_Id entry) 64)
      \<and> \<not> isl (ParseFloat L (le_Latitude entry))
      \<and> \<not> isl (ParseFloat L (le_Longitude entry))
      \<and> (le_Elevation entry = '''' \<or> \<not> isl (ParseFloat L (le_Elevation entry))))"

text \<open>
  The strings an error carries: the operands of the \<open>%v\<close> verbs of \<open>fmt.Errorf\<close>, the input
  of a \<open>strconv\<close> error, the layout and value of a \<open>time\<close> error, and those of the error
  it wraps.
\<close>

fun errorNames :: "error \<Rightarrow> string \<Rightarrow> bool" where
  "errorNames (Errorf fmt args w) s =
     (s \<in> set args \<or> (case w of None \<Rightarrow> False | Some e \<Rightarrow> errorNames e s))"
| "errorNames (NumError fn num e) s = (s = num)"
| "errorNames (ParseError layout v) s = (s = layout \<or> s = v)"
| "errorNames (New m) s = False"
| "errorNames (External m) s = False"
| "errorNames (Panic m) s = False"

section \<open>The outcomes of the public calls\<close>












section \<open>Lemmas on the conversion loops\<close>

lemma convertReps_Inr:
  "convertReps pd t rs = Inr fs \<Longrightarrow>
   length fs = length rs \<and> (\<forall>j < length rs. convertRep pd t (rs ! j) = Inr (fs ! j))"
proof (induction rs arbitrary: fs)
  case Nil
  then show ?case by simp
next
  case (Cons r rs)
  from Cons.prems obtain f fs' where f: "convertRep pd t r = Inr f"
    and fs': "convertReps pd t rs = Inr fs'" and eq: "fs = f # fs'"
    by (auto split: sum.splits)
  from Cons.IH [OF fs'] f eq show ?case
    by (auto simp: nth_Cons split: nat.splits)
qed

lemma convertPeriods_Inr:
  "convertPeriods L pd ps = Inr qs \<Longrightarrow>
   length qs = length ps \<and> (\<forall>i < length ps. convertPeriod L pd (ps ! i) = Inr (qs ! i))"
proof (induction ps arbitrary: qs)
  case Nil
  then show ?case by simp
next
  case (Cons p ps)
  from Cons.prems obtain q qs' where q: "convertPeriod L pd p = Inr q"
    and qs': "convertPeriods L pd ps = Inr qs'" and eq: "qs = q # qs'"
    by (auto split: sum.splits)
  from Cons.IH [OF qs'] q eq show ?case
    by (auto simp: nth_Cons split: nat.splits)
qed

lemma convertLocation_Some:
  assumes "convertLocation L pd ty st entry = (Some sr, err)"
  shows "err = None"
    and "convertPeriods L pd (le_Period entry) = Inr (LocationRep_Period (SiteRep_Location sr))"
  using assms by (auto simp: convertLocation_def split: sum.splits if_splits)

lemma convertLocation_forecast:
  assumes conv: "convertLocation L pd ty st entry = (Some sr, err)"
    and i: "i < length (le_Period entry)"
    and j: "j < length (pe_Rep (le_Period entry ! i))"
  shows "time_Parse L ''2006-01-02Z'' (pe_Value (le_Period entry ! i)) =
           Inr (Period_Time (LocationRep_Period (SiteRep_Location sr) ! i))"
    and "convertRep pd (Period_Time (LocationRep_Period (SiteRep_Location sr) ! i))
           (pe_Rep (le_Period entry ! i) ! j) =
           Inr (Period_Forecasts (LocationRep_Period (SiteRep_Location sr) ! i) ! j)"
    and "length (LocationRep_Period (SiteRep_Location sr)) = length (le_Period entry)"
    and "length (Period_Forecasts (LocationRep_Period (SiteRep_Location sr) ! i)) =
           length (pe_Rep (le_Period entry ! i))"
proof -
  let ?qs = "LocationRep_Period (SiteRep_Location sr)"
  from convertLocation_Some(2) [OF conv]
  have ps: "convertPeriods L pd (le_Period entry) = Inr ?qs" .
  from convertPeriods_Inr [OF ps] i
  have len: "length ?qs = length (le_Period entry)"
    and p: "convertPeriod L pd (le_Period entry ! i) = Inr (?qs ! i)"
    by auto
  from p obtain t fs where t: "time_Parse L ''2006-01-02Z'' (pe_Value (le_Period entry ! i)) = Inr t"
    and fs: "convertReps pd t (pe_Rep (le_Period entry ! i)) = Inr fs"
    and q: "?qs ! i = \<lparr>Period_Type = pe_Type (le_Period entry ! i), Period_Time = t, Period_Forecasts = fs\<rparr>"
    by (auto simp: convertPeriod_def split: sum.splits)
  from q have pt: "Period_Time (?qs ! i) = t" and pf: "Period_Forecasts (?qs ! i) = fs"
    by simp_all
  from convertReps_Inr [OF fs] j
  have "length fs = length (pe_Rep (le_Period entry ! i))"
    and "convertRep pd t (pe_Rep (le_Period entry ! i) ! j) = Inr (fs ! j)"
    by auto
  with t pt pf len
  show "time_Parse L ''2006-01-02Z'' (pe_Value (le_Period entry ! i)) = Inr (Period_Time (?qs ! i))"
    and "convertRep pd (Period_Time (?qs ! i)) (pe_Rep (le_Period entry ! i) ! j) =
           Inr (Period_Forecasts (?qs ! i) ! j)"
    and "length ?qs = length (le_Period entry)"
    and "length (Period_Forecasts (?qs ! i)) = length (pe_Rep (le_Period entry ! i))"
    by simp_all
qed

lemma rangeRep_untouched:
  "rangeRep pd r ip sp = Inr (ip', sp') \<Longrightarrow> k \<notin> fst ` set r \<or> k = ''$'' \<Longrightarrow>
   ip' k = ip k \<and> sp' k = sp k"
proof (induction r arbitrary: ip sp)
  case Nil
  then show ?case by simp
next
  case (Cons kv r)
  obtain k0 v0 where kv: "kv = (k0, v0)" by (cases kv)
  from Cons.prems(2) kv have k: "k \<notin> fst ` set r \<or> k = ''$''" and ne: "k0 = ''$'' \<or> k \<noteq> k0"
    by auto
  from Cons.prems(1) kv consider
      (dollar) "k0 = ''$''" "rangeRep pd r ip sp = Inr (ip', sp')"
    | (known) d n where "k0 \<noteq> ''$''"
        "rangeRep pd r (ip(k0 \<mapsto> \<lparr>ipv_Descriptor = d, ipv_Value = n\<rparr>)) sp = Inr (ip', sp')"
    | (other) d where "k0 \<noteq> ''$''"
        "rangeRep pd r ip (sp(k0 \<mapsto> \<lparr>spv_Descriptor = d, spv_Value = v0\<rparr>)) = Inr (ip', sp')"
    by (auto split: if_splits option.splits sum.splits)
  then show ?case
  proof cases
    case dollar
    from Cons.IH [OF dollar(2) k] show ?thesis .
  next
    case known
    from Cons.IH [OF known(2) k] ne known(1) show ?thesis by auto
  next
    case other
    from Cons.IH [OF other(2) k] ne other(1) show ?thesis by auto
  qed
qed

lemma rangeRep_known:
  "rangeRep pd r ip sp = Inr (ip', sp') \<Longrightarrow> distinct (map fst r) \<Longrightarrow> (k, v) \<in> set r \<Longrightarrow>
   k \<noteq> ''$'' \<Longrightarrow> k \<in> set knownIntParams \<Longrightarrow>
   \<exists>d n. pd k = Some d \<and> ParseInt v 16 = Inr n \<and>
     ip' k = Some \<lparr>ipv_Descriptor = d, ipv_Value = n\<rparr> \<and> sp' k = sp k"
proof (induction r arbitrary: ip sp)
  case Nil
  then show ?case by simp
next
  case (Cons kv r)
  obtain k0 v0 where kv: "kv = (k0, v0)" by (cases kv)
  from Cons.prems(2) kv have dist: "distinct (map fst r)" and fresh: "k0 \<notin> fst ` set r"
    by auto
  show ?case
  proof (cases "(k, v) = (k0, v0)")
    case True
    with Cons.prems(1,4,5) kv obtain d n where d: "pd k = Some d" and n: "ParseInt v 16 = Inr n"
      and rest: "rangeRep pd r (ip(k \<mapsto> \<lparr>ipv_Descriptor = d, ipv_Value = n\<rparr>)) sp = Inr (ip', sp')"
      by (auto split: option.splits sum.splits)
    from True fresh have "k \<notin> fst ` set r \<or> k = ''$''" by simp
    from rangeRep_untouched [OF rest this] d n show ?thesis by simp
  next
    case False
    with Cons.prems(3) kv have in_r: "(k, v) \<in> set r" by auto
    with fresh have ne: "k \<noteq> k0" by force
    from Cons.prems(1) kv consider
        (dollar) "rangeRep pd r ip sp = Inr (ip', sp')"
      | (known) d n where
          "rangeRep pd r (ip(k0 \<mapsto> \<lparr>ipv_Descriptor = d, ipv_Value = n\<rparr>)) sp = Inr (ip', sp')"
      | (other) d where
          "rangeRep pd r ip (sp(k0 \<mapsto> \<lparr>spv_Descriptor = d, spv_Value = v0\<rparr>)) = Inr (ip', sp')"
      by (auto split: if_splits option.splits sum.splits)
    then show ?thesis
    proof cases
      case dollar
      from Cons.IH [OF dollar dist in_r Cons.prems(4,5)] show ?thesis .
    next
      case known
      from Cons.IH [OF known dist in_r Cons.prems(4,5)] show ?thesis .
    next
      case other
      from Cons.IH [OF other dist in_r Cons.prems(4,5)] ne show ?thesis by simp
    qed
  qed
qed

lemma rangeRep_string:
  "rangeRep pd r ip sp = Inr (ip', sp') \<Longrightarrow> distinct (map fst r) \<Longrightarrow> (k, v) \<in> set r \<Longrightarrow>
   k \<noteq> ''$'' \<Longrightarrow> k \<notin> set knownIntParams \<Longrightarrow>
   \<exists>d. pd k = Some d \<and>
     sp' k = Some \<lparr>spv_Descriptor = d, spv_Value = v\<rparr> \<and> ip' k = ip k"
proof (induction r arbitrary: ip sp)
  case Nil
  then show ?case by simp
next
  case (Cons kv r)
  obtain k0 v0 where kv: "kv = (k0, v0)" by (cases kv)
  from Cons.prems(2) kv have dist: "distinct (map fst r)" and fresh: "k0 \<notin> fst ` set r"
    by auto
  show ?case
  proof (cases "(k, v) = (k0, v0)")
    case True
    with Cons.prems(1,4,5) kv obtain d where d: "pd k = Some d"
      and rest: "rangeRep pd r ip (sp(k \<mapsto> \<lparr>spv_Descriptor = d, spv_Value = v\<rparr>)) = Inr (ip', sp')"
      by (auto split: option.splits sum.splits)
    from True fresh have "k \<notin> fst ` set r \<or> k = ''$''" by simp
    from rangeRep_untouched [OF rest this] d show ?thesis by simp
  next
    case False
    with Cons.prems(3) kv have in_r: "(k, v) \<in> set r" by auto
    with fresh have ne: "k \<noteq> k0" by force
    from Cons.prems(1) kv consider
        (dollar) "rangeRep pd r ip sp = Inr (ip', sp')"
      | (known) d n where
          "rangeRep pd r (ip(k0 \<mapsto> \<lparr>ipv_Descriptor = d, ipv_Value = n\<rparr>)) sp = Inr (ip', sp')"
      | (other) d where
          "rangeRep pd r ip (sp(k0 \<mapsto> \<lparr>spv_Descriptor = d, spv_Value = v0\<rparr>)) = Inr (ip', sp')"
      by (auto split: if_splits option.splits sum.splits)
    then show ?thesis
    proof cases
      case dollar
      from Cons.IH [OF dollar dist in_r Cons.prems(4,5)] show ?thesis .
    next
      case known
      from Cons.IH [OF known dist in_r Cons.prems(4,5)] ne show ?thesis by simp
    next
      case other
      from Cons.IH [OF other dist in_r Cons.prems(4,5)] show ?thesis .
    qed
  qed
qed

lemma rangeRep_converts:
  "(\<exists>ip' sp'. rangeRep pd r ip sp = Inr (ip', sp')) = list_all (entryConverts pd) r"
proof (induction r arbitrary: ip sp)
  case Nil
  then show ?case by simp
next
  case (Cons kv r)
  obtain k v where kv: "kv = (k, v)" by (cases kv)
  show ?case
  proof (cases "k = ''$''")
    case True
    with Cons.IH [of ip sp] kv show ?thesis
      by (simp add: entryConverts_def)
  next
    case False
    show ?thesis
    proof (cases "pd k")
      case None
      with False kv show ?thesis
        by (simp add: entryConverts_def)
    next
      case (Some d)
      show ?thesis
      proof (cases "k \<in> set knownIntParams")
        case True
        show ?thesis
        proof (cases "ParseInt v 16")
          case (Inl e)
          with True Some False kv show ?thesis
            by (simp add: entryConverts_def)
        next
          case (Inr n)
          with True Some False kv
            Cons.IH [of "ip(k \<mapsto> \<lparr>ipv_Descriptor = d, ipv_Value = n\<rparr>)" sp]
          show ?thesis
            by (simp add: entryConverts_def fun_upd_def)
        qed
      next
        case notknown: False
        with Some False kv
          Cons.IH [of ip "sp(k \<mapsto> \<lparr>spv_Descriptor = d, spv_Value = v\<rparr>)"]
        show ?thesis
          by (simp add: entryConverts_def fun_upd_def)
      qed
    qed
  qed
qed

lemma rangeRep_prefix_missing:
  "list_all (entryConverts pd) pre \<Longrightarrow> k \<noteq> ''$'' \<Longrightarrow> pd k = None \<Longrightarrow>
   rangeRep pd (pre @ (k, v) # post) ip sp =
     Inl (Errorf ''could not find descriptor for parameter %v'' [k] None)"
proof (induction pre arbitrary: ip sp)
  case Nil
  then show ?case by simp
next
  case (Cons kv pre)
  obtain k0 v0 where kv: "kv = (k0, v0)" by (cases kv)
  from Cons.prems(1) kv have c: "entryConverts pd (k0, v0)" and rest: "list_all (entryConverts pd) pre"
    by simp_all
  note IH = Cons.IH [OF rest Cons.prems(2,3)]
  from c show ?case
    unfolding kv
    by (cases "ParseInt v0 16") (auto simp: entryConverts_def IH split: option.splits)
qed

lemma rangeRep_dom:
  "rangeRep pd r ip sp = Inr (ip', sp') \<Longrightarrow>
   dom ip' = dom ip \<union> {k \<in> fst ` set r. k \<noteq> ''$'' \<and> k \<in> set knownIntParams} \<and>
   dom sp' = dom sp \<union> {k \<in> fst ` set r. k \<noteq> ''$'' \<and> k \<notin> set knownIntParams}"
proof (induction r arbitrary: ip sp)
  case Nil
  then show ?case by simp
next
  case (Cons kv r)
  obtain k0 v0 where kv: "kv = (k0, v0)" by (cases kv)
  from Cons.prems kv consider
      (dollar) "k0 = ''$''" "rangeRep pd r ip sp = Inr (ip', sp')"
    | (known) d n where "k0 \<noteq> ''$''" "k0 \<in> set knownIntParams"
        "rangeRep pd r (ip(k0 \<mapsto> \<lparr>ipv_Descriptor = d, ipv_Value = n\<rparr>)) sp = Inr (ip', sp')"
    | (other) d where "k0 \<noteq> ''$''" "k0 \<notin> set knownIntParams"
        "rangeRep pd r ip (sp(k0 \<mapsto> \<lparr>spv_Descriptor = d, spv_Value = v0\<rparr>)) = Inr (ip', sp')"
    by (auto split: if_splits option.splits sum.splits)
  then show ?case
  proof cases
    case dollar
    from Cons.IH [OF dollar(2)] dollar(1) kv show ?thesis by auto
  next
    case known
    from Cons.IH [OF known(3)]
    have "dom ip' = insert k0 (dom ip) \<union> {k \<in> fst ` set r. k \<noteq> ''$'' \<and> k \<in> set knownIntParams}"
      and "dom sp' = dom sp \<union> {k \<in> fst ` set r. k \<noteq> ''$'' \<and> k \<notin> set knownIntParams}"
      unfolding dom_fun_upd by simp_all
    with known(1,2) kv show ?thesis by auto
  next
    case other
    from Cons.IH [OF other(3)]
    have "dom ip' = dom ip \<union> {k \<in> fst ` set r. k \<noteq> ''$'' \<and> k \<in> set knownIntParams}"
      and "dom sp' = insert k0 (dom sp) \<union> {k \<in> fst ` set r. k \<noteq> ''$'' \<and> k \<notin> set knownIntParams}"
      unfolding dom_fun_upd by simp_all
    with other(1,2) kv show ?thesis by auto
  qed
qed

lemma convertRep_converts:
  "(\<exists>f. convertRep pd t r = Inr f) = repConverts pd r"
proof -
  have "(\<exists>f. convertRep pd t r = Inr f) =
        ((case map_of r ''$'' of None \<Rightarrow> False | Some tok \<Rightarrow> \<not> isl (forecastOffset tok))
         \<and> (\<exists>ip' sp'. rangeRep pd r Map.empty Map.empty = Inr (ip', sp')))"
    by (auto simp: convertRep_def split: option.splits sum.splits)
  then show ?thesis
    unfolding repConverts_def rangeRep_converts .
qed

lemma convertReps_converts:
  "(\<exists>fs. convertReps pd t rs = Inr fs) = list_all (repConverts pd) rs"
proof (induction rs)
  case Nil
  then show ?case by simp
next
  case (Cons r rs)
  have "(\<exists>fs. convertReps pd t (r # rs) = Inr fs) =
        ((\<exists>f. convertRep pd t r = Inr f) \<and> (\<exists>fs. convertReps pd t rs = Inr fs))"
    by (auto split: sum.splits)
  with Cons.IH show ?case
    by (simp add: convertRep_converts)
qed

lemma convertPeriod_converts:
  "(\<exists>q. convertPeriod L pd p = Inr q) = periodConverts L pd p"
proof -
  have "(\<exists>q. convertPeriod L pd p = Inr q) =
        (\<exists>t. time_Parse L ''2006-01-02Z'' (pe_Value p) = Inr t
             \<and> (\<exists>fs. convertReps pd t (pe_Rep p) = Inr fs))"
    by (auto simp: convertPeriod_def split: sum.splits)
  also have "\<dots> = periodConverts L pd p"
    by (cases "time_Parse L ''2006-01-02Z'' (pe_Value p)")
       (simp_all add: periodConverts_def convertReps_converts)
  finally show ?thesis .
qed

lemma convertPeriods_converts:
  "(\<exists>qs. convertPeriods L pd ps = Inr qs) = list_all (periodConverts L pd) ps"
proof (induction ps)
  case Nil
  then show ?case by simp
next
  case (Cons p ps)
  have "(\<exists>qs. convertPeriods L pd (p # ps) = Inr qs) =
        ((\<exists>q. convertPeriod L pd p = Inr q) \<and> (\<exists>qs. convertPeriods L pd ps = Inr qs))"
    by (auto split: sum.splits)
  with Cons.IH show ?case
    by (simp add: convertPeriod_converts)
qed

lemma convertLocation_shape:
  "(\<exists>sr. convertLocation L pd ty st entry = (Some sr, None)) \<or>
   (\<exists>e. convertLocation L pd ty st entry = (None, Some e))"
  by (auto simp: convertLocation_def split: sum.splits)

lemma convertLocation_converts:
  "(\<exists>sr. convertLocation L pd ty st entry = (Some sr, None)) = locationConverts L pd entry"
proof -
  have "(\<exists>sr. convertLocation L pd ty st entry = (Some sr, None)) =
        ((\<exists>qs. convertPeriods L pd (le_Period entry) = Inr qs)
         \<and> \<not> isl (ParseInt (le_Id entry) 64)
         \<and> \<not> isl (ParseFloat L (le_Latitude entry))
         \<and> \<not> isl (ParseFloat L (le_Longitude entry))
         \<and> (le_Elevation entry = '''' \<or> \<not> isl (ParseFloat L (le_Elevation entry))))"
    by (auto simp: convertLocation_def split: sum.splits)
  then show ?thesis
    by (simp add: locationConverts_def convertPeriods_converts)
qed

lemma convertLocation_fails:
  "\<not> locationConverts L pd entry \<Longrightarrow> \<exists>e. convertLocation L pd ty st entry = (None, Some e)"
  using convertLocation_shape [of L pd ty st entry] convertLocation_converts [of L pd ty st entry]
  by auto

lemma convertReps_first_failure:
  "list_all (repConverts pd) rpre \<Longrightarrow> convertRep pd t r = Inl e \<Longrightarrow>
   convertReps pd t (rpre @ r # rpost) = Inl e"
proof (induction rpre)
  case Nil
  then show ?case by simp
next
  case (Cons r0 rpre)
  from Cons.prems(1) have "repConverts pd r0" and rest: "list_all (repConverts pd) rpre"
    by simp_all
  then obtain f where "convertRep pd t r0 = Inr f"
    using convertRep_converts [of pd t r0] by auto
  with Cons.IH [OF rest Cons.prems(2)] show ?case by simp
qed

lemma convertPeriods_first_failure:
  "list_all (periodConverts L pd) ppre \<Longrightarrow> convertPeriod L pd p = Inl e \<Longrightarrow>
   convertPeriods L pd (ppre @ p # ppost) = Inl e"
proof (induction ppre)
  case Nil
  then show ?case by simp
next
  case (Cons p0 ppre)
  from Cons.prems(1) have "periodConverts L pd p0" and rest: "list_all (periodConverts L pd) ppre"
    by simp_all
  then obtain q where "convertPeriod L pd p0 = Inr q"
    using convertPeriod_converts [of L pd p0] by auto
  with Cons.IH [OF rest Cons.prems(2)] show ?case by simp
qed

lemma convertRep_Inr:
  assumes "convertRep pd t r = Inr f"
  shows "rangeRep pd r Map.empty Map.empty = Inr (IntParams f, StringParams f)"
  using assms by (auto simp: convertRep_def split: option.splits sum.splits)

lemma upperhex_queryByte: "n < 16 \<Longrightarrow> queryByte (upperhex n)"
proof -
  assume "n < 16"
  then have "n \<in> set [0..<16]"
    by simp
  moreover have "list_all (\<lambda>n. queryByte (upperhex n)) [0..<16]"
    by code_simp
  ultimately show ?thesis
    unfolding list_all_iff by blast
qed

lemma escapeByte_queryByte: "x \<in> set (escapeByte c) \<Longrightarrow> queryByte x"
proof -
  assume x: "x \<in> set (escapeByte c)"
  have lt: "(of_char c :: nat) < 256"
    by (cases c) simp
  then have "(of_char c :: nat) div 16 < 16" and "(of_char c :: nat) mod 16 < 16"
    by (simp_all add: less_mult_imp_div_less)
  then have hex: "queryByte (upperhex ((of_char c :: nat) div 16))"
    "queryByte (upperhex ((of_char c :: nat) mod 16))"
    by (simp_all add: upperhex_queryByte)
  have keep: "\<not> shouldEscape c \<Longrightarrow> queryByte c"
    by (auto simp: shouldEscape_def queryByte_def isLetter_def isDigit_def Let_def)
  from x hex keep show ?thesis
    by (auto simp: escapeByte_def queryByte_def split: if_splits)
qed

lemma QueryEscape_queryByte: "x \<in> set (QueryEscape s) \<Longrightarrow> queryByte x"
  by (auto simp: QueryEscape_def dest: escapeByte_queryByte)

lemma QueryEscape_no_ampersand: "count_list (QueryEscape s) CHR ''&'' = 0"
proof -
  have "\<not> queryByte CHR ''&''"
    by (simp add: queryByte_def isLetter_def isDigit_def)
  then have "CHR ''&'' \<notin> set (QueryEscape s)"
    using QueryEscape_queryByte by blast
  then show ?thesis
    by (simp add: count_list_0_iff)
qed

lemma appendParams_concat:
  "appendParams w kvs =
     w @ concat (map (\<lambda>(k, v). ''&'' @ QueryEscape k @ ''='' @ QueryEscape v) kvs)"
  by (induction kvs arbitrary: w) auto

lemma appendParams_count:
  "count_list (appendParams w kvs) CHR ''&'' = count_list w CHR ''&'' + length kvs"
proof (induction kvs arbitrary: w)
  case Nil
  then show ?case by simp
next
  case (Cons kv kvs)
  obtain k v where kv: "kv = (k, v)" by (cases kv)
  show ?case
    unfolding kv by (simp add: Cons.IH QueryEscape_no_ampersand)
qed
















lemma requestURL_concat:
  "requestURL target key params
     = target @ ''?key='' @ key
       @ concat (map (\<lambda>(k, v). ''&'' @ QueryEscape k @ ''='' @ QueryEscape v)
                   (case params of None \<Rightarrow> [] | Some kvs \<Rightarrow> kvs))"
  by (simp add: requestURL_def appendParams_concat split: option.splits)

section \<open>C1: the time of a forecast\<close>

text \<open>
  C1. For every record converted by \<open>convertLocation\<close> (record \<open>j\<close> of period \<open>i\<close> of an entry
  whose conversion returns a value), the record has a \<open>$\<close> value, the time of the period is
  the instant \<open>time.Parse\<close> returns for the period's date, and the time of the forecast is
  that instant for the token \<open>Day\<close>, that instant plus 86399 seconds for the token
  \<open>Night\<close>, and for any other token that instant plus \<open>n\<close> minutes, where \<open>n\<close> is the
  integer \<open>strconv.ParseInt\<close> reads from the token.
\<close>

theorem forecast_time_decoding:
  assumes conv: "convertLocation L pd ty st entry = (Some sr, err)"
    and i: "i < length (le_Period entry)"
    and j: "j < length (pe_Rep (le_Period entry ! i))"
    and r: "r = pe_Rep (le_Period entry ! i) ! j"
    and p: "p = LocationRep_Period (SiteRep_Location sr) ! i"
    and f: "f = Period_Forecasts p ! j"
  shows "\<exists>tok. map_of r ''$'' = Some tok
     \<and> time_Parse L ''2006-01-02Z'' (pe_Value (le_Period entry ! i)) = Inr (Period_Time p)
     \<and> (tok = ''Day'' \<longrightarrow> Forecast_Time f = Period_Time p)
     \<and> (tok = ''Night'' \<longrightarrow> Forecast_Time f = Add (Period_Time p) (86399 * Second))
     \<and> (tok \<noteq> ''Day'' \<and> tok \<noteq> ''Night'' \<longrightarrow>
          (\<exists>n. ParseInt tok 16 = Inr n \<and> Forecast_Time f = Add (Period_Time p) (n * 60 * Second)))"
proof -
  from convertLocation_forecast(1,2) [OF conv i j] r p f
  have t: "time_Parse L ''2006-01-02Z'' (pe_Value (le_Period entry ! i)) = Inr (Period_Time p)"
    and c: "convertRep pd (Period_Time p) r = Inr f"
    by simp_all
  from c obtain tok off where tok: "map_of r ''$'' = Some tok"
    and off: "forecastOffset tok = Inr off"
    and ft: "Forecast_Time f = Add (Period_Time p) (off * Second)"
    by (auto simp: convertRep_def split: option.splits sum.splits)
  from off have "tok = ''Day'' \<longrightarrow> off = 0"
    and "tok = ''Night'' \<longrightarrow> off = 86399"
    and "tok \<noteq> ''Day'' \<and> tok \<noteq> ''Night'' \<longrightarrow> (\<exists>n. ParseInt tok 16 = Inr n \<and> off = n * 60)"
    by (auto simp: forecastOffset_def split: if_splits sum.splits)
  with tok t ft show ?thesis
    by (auto simp: Add_def)
qed

text \<open>
  The example location: its three records carry \<open>180\<close>, \<open>Day\<close> and \<open>Night\<close>, and the period
  date \<open>2012-11-21Z\<close> is the instant 1353456000 seconds after the epoch.
\<close>

theorem forecast_time_decoding_witness:
  "snd (convertLocation golib (buildParamDefinitions Map.empty exampleWx) ''Forecast'' 0
          exampleLocation) = None
   \<and> map (\<lambda>j. Forecast_Time
          (Period_Forecasts
             (LocationRep_Period
                (SiteRep_Location
                   (the (fst (convertLocation golib (buildParamDefinitions Map.empty exampleWx)
                                ''Forecast'' 0 exampleLocation)))) ! 0) ! j)) [0, 1, 2]
     = [1353456000 * Second + 180 * 60 * Second,
        1353456000 * Second,
        1353456000 * Second + 86399 * Second]"
proof -
  let ?c = "convertLocation golib (buildParamDefinitions Map.empty exampleWx) ''Forecast'' 0
              exampleLocation"
  have e: "snd ?c = None"
    by code_simp
  have "case fst ?c of None \<Rightarrow> False | Some x \<Rightarrow> True"
    by code_simp
  with e obtain sr where sr: "?c = (Some sr, None)"
    by (cases ?c) (auto split: option.splits)
  let ?p = "LocationRep_Period (SiteRep_Location sr) ! 0"
  have i: "0 < length (le_Period exampleLocation)"
    by code_simp
  have j: "0 < length (pe_Rep (le_Period exampleLocation ! 0))"
    "1 < length (pe_Rep (le_Period exampleLocation ! 0))"
    "2 < length (pe_Rep (le_Period exampleLocation ! 0))"
    by code_simp+
  have toks: "map_of (pe_Rep (le_Period exampleLocation ! 0) ! 0) ''$'' = Some ''180''"
    "map_of (pe_Rep (le_Period exampleLocation ! 0) ! 1) ''$'' = Some ''Day''"
    "map_of (pe_Rep (le_Period exampleLocation ! 0) ! 2) ''$'' = Some ''Night''"
    by code_simp+
  have date: "time_Parse golib ''2006-01-02Z'' (pe_Value (le_Period exampleLocation ! 0))
                = Inr (1353456000 * Second)"
    by code_simp
  have n: "ParseInt ''180'' 16 = Inr 180"
    by code_simp
  from forecast_time_decoding [OF sr i j(1) refl refl refl] toks(1) date n
  have f0: "Forecast_Time (Period_Forecasts ?p ! 0) = 1353456000 * Second + 180 * 60 * Second"
    by (auto simp: Add_def)
  from forecast_time_decoding [OF sr i j(2) refl refl refl] toks(2) date
  have f1: "Forecast_Time (Period_Forecasts ?p ! 1) = 1353456000 * Second"
    by (auto simp: Add_def)
  from forecast_time_decoding [OF sr i j(3) refl refl refl] toks(3) date
  have f2: "Forecast_Time (Period_Forecasts ?p ! 2) = 1353456000 * Second + 86399 * Second"
    by (auto simp: Add_def)
  from e sr f0 f1 f2 show ?thesis
    by simp
qed

section \<open>C2: classification of the parameters\<close>

text \<open>
  C2. For every key other than \<open>$\<close> of a record converted by \<open>convertLocation\<close>: if the key
  is on the list \<open>knownIntParams\<close>, its value parses as an integer, the forecast stores that
  integer with the key's descriptor in \<open>IntParams\<close>, and the key is absent from
  \<open>StringParams\<close>; if the key is not on the list, the forecast stores the value as it stands
  with the key's descriptor in \<open>StringParams\<close>, whatever the value looks like, and the key is
  absent from \<open>IntParams\<close>. The keys of a Go map are distinct.
\<close>

theorem parameter_classification:
  assumes conv: "convertLocation L pd ty st entry = (Some sr, err)"
    and i: "i < length (le_Period entry)"
    and j: "j < length (pe_Rep (le_Period entry ! i))"
    and r: "r = pe_Rep (le_Period entry ! i) ! j"
    and f: "f = Period_Forecasts (LocationRep_Period (SiteRep_Location sr) ! i) ! j"
    and dist: "distinct (map fst r)"
    and kv: "(k, v) \<in> set r"
    and k: "k \<noteq> ''$''"
  shows "(k \<in> set knownIntParams \<longrightarrow>
            (\<exists>d n. pd k = Some d \<and> ParseInt v 16 = Inr n
               \<and> IntParams f k = Some \<lparr>ipv_Descriptor = d, ipv_Value = n\<rparr>
               \<and> StringParams f k = None))
       \<and> (k \<notin> set knownIntParams \<longrightarrow>
            (\<exists>d. pd k = Some d
               \<and> StringParams f k = Some \<lparr>spv_Descriptor = d, spv_Value = v\<rparr>
               \<and> IntParams f k = None))"
proof -
  from convertLocation_forecast(2) [OF conv i j] r f
  have "convertRep pd (Period_Time (LocationRep_Period (SiteRep_Location sr) ! i)) r = Inr f"
    by simp
  then obtain ip sp where rr: "rangeRep pd r Map.empty Map.empty = Inr (ip, sp)"
    and ips: "IntParams f = ip" and sps: "StringParams f = sp"
    by (auto simp: convertRep_def split: option.splits sum.splits)
  show ?thesis
  proof (intro conjI impI)
    assume "k \<in> set knownIntParams"
    from rangeRep_known [OF rr dist kv k this] ips sps
    show "\<exists>d n. pd k = Some d \<and> ParseInt v 16 = Inr n
            \<and> IntParams f k = Some \<lparr>ipv_Descriptor = d, ipv_Value = n\<rparr>
            \<and> StringParams f k = None"
      by auto
  next
    assume "k \<notin> set knownIntParams"
    from rangeRep_string [OF rr dist kv k this] ips sps
    show "\<exists>d. pd k = Some d
            \<and> StringParams f k = Some \<lparr>spv_Descriptor = d, spv_Value = v\<rparr>
            \<and> IntParams f k = None"
      by auto
  qed
qed

text \<open>
  The first record of the example: \<open>T\<close> is on the list and \<open>12\<close> is stored as an integer;
  \<open>V\<close> is not, and its value \<open>35000\<close>, numeric as it looks, is stored as text.
\<close>

theorem parameter_classification_witness:
  "snd (convertLocation golib (buildParamDefinitions Map.empty exampleWx) ''Forecast'' 0
          exampleLocation) = None
   \<and> map_option ipv_Value
        (IntParams
           (Period_Forecasts
              (LocationRep_Period
                 (SiteRep_Location
                    (the (fst (convertLocation golib (buildParamDefinitions Map.empty exampleWx)
                                 ''Forecast'' 0 exampleLocation)))) ! 0) ! 0) ''T'') = Some 12
   \<and> StringParams
        (Period_Forecasts
           (LocationRep_Period
              (SiteRep_Location
                 (the (fst (convertLocation golib (buildParamDefinitions Map.empty exampleWx)
                              ''Forecast'' 0 exampleLocation)))) ! 0) ! 0) ''T'' = None
   \<and> map_option spv_Value
        (StringParams
           (Period_Forecasts
              (LocationRep_Period
                 (SiteRep_Location
                    (the (fst (convertLocation golib (buildParamDefinitions Map.empty exampleWx)
                                 ''Forecast'' 0 exampleLocation)))) ! 0) ! 0) ''V'') = Some ''35000''
   \<and> IntParams
        (Period_Forecasts
           (LocationRep_Period
              (SiteRep_Location
                 (the (fst (convertLocation golib (buildParamDefinitions Map.empty exampleWx)
                              ''Forecast'' 0 exampleLocation)))) ! 0) ! 0) ''V'' = None"
proof -
  let ?c = "convertLocation golib (buildParamDefinitions Map.empty exampleWx) ''Forecast'' 0
              exampleLocation"
  let ?r = "pe_Rep (le_Period exampleLocation ! 0) ! 0"
  have e: "snd ?c = None"
    by code_simp
  have "case fst ?c of None \<Rightarrow> False | Some x \<Rightarrow> True"
    by code_simp
  with e obtain sr where sr: "?c = (Some sr, None)"
    by (cases ?c) (auto split: option.splits)
  have i: "0 < length (le_Period exampleLocation)"
    by code_simp
  have j: "0 < length (pe_Rep (le_Period exampleLocation ! 0))"
    by code_simp
  have dist: "distinct (map fst ?r)"
    by code_simp
  have inT: "(''T'', ''12'') \<in> set ?r" and inV: "(''V'', ''35000'') \<in> set ?r"
    by code_simp+
  have kT: "''T'' \<in> set knownIntParams" and kV: "''V'' \<notin> set knownIntParams"
    by code_simp+
  have n: "ParseInt ''12'' 16 = Inr 12"
    by code_simp
  from parameter_classification [OF sr i j refl refl dist inT] kT n
  have T: "map_option ipv_Value
             (IntParams (Period_Forecasts (LocationRep_Period (SiteRep_Location sr) ! 0) ! 0) ''T'')
           = Some 12"
    "StringParams (Period_Forecasts (LocationRep_Period (SiteRep_Location sr) ! 0) ! 0) ''T'' = None"
    by auto
  from parameter_classification [OF sr i j refl refl dist inV] kV
  have V: "map_option spv_Value
             (StringParams (Period_Forecasts (LocationRep_Period (SiteRep_Location sr) ! 0) ! 0) ''V'')
           = Some ''35000''"
    "IntParams (Period_Forecasts (LocationRep_Period (SiteRep_Location sr) ! 0) ! 0) ''V'' = None"
    by auto
  from e sr T V show ?thesis
    by simp
qed

section \<open>C6: a known integer that does not parse\<close>

text \<open>
  C6. The rule is one of the rules for the keys other than \<open>$\<close>, which is the offset marker
  and not a parameter: the loop skips it before it classifies a key. For every record that
  contains a key other than \<open>$\<close> on the list \<open>knownIntParams\<close> whose value fails
  \<open>strconv.ParseInt(v, 10, 16)\<close> (a value outside the 16-bit range included),
  \<open>convertLocation\<close> returns no value and an error; and in every forecast of every
  conversion that returns a value, no key of the list is in \<open>StringParams\<close>, so that no
  such value is ever stored as a string parameter.
\<close>

theorem known_int_parse_failure:
  "(i < length (le_Period entry) \<and> j < length (pe_Rep (le_Period entry ! i))
      \<and> (k, v) \<in> set (pe_Rep (le_Period entry ! i) ! j)
      \<and> k \<noteq> ''$'' \<and> k \<in> set knownIntParams \<and> isl (ParseInt v 16)
    \<longrightarrow> (\<exists>e. convertLocation L pd ty st entry = (None, Some e)))
   \<and> (convertLocation L pd ty st entry = (Some sr, err)
      \<and> i < length (le_Period entry) \<and> j < length (pe_Rep (le_Period entry ! i))
      \<and> k \<in> set knownIntParams
    \<longrightarrow> StringParams (Period_Forecasts (LocationRep_Period (SiteRep_Location sr) ! i) ! j) k = None)"
proof (intro conjI impI)
  assume a: "i < length (le_Period entry) \<and> j < length (pe_Rep (le_Period entry ! i))
      \<and> (k, v) \<in> set (pe_Rep (le_Period entry ! i) ! j)
      \<and> k \<noteq> ''$'' \<and> k \<in> set knownIntParams \<and> isl (ParseInt v 16)"
  then have "\<not> entryConverts pd (k, v)"
    by (simp add: entryConverts_def)
  with a have "\<not> repConverts pd (pe_Rep (le_Period entry ! i) ! j)"
    by (auto simp: repConverts_def list_all_iff)
  with a have "\<not> periodConverts L pd (le_Period entry ! i)"
    by (auto simp: periodConverts_def list_all_iff)
  with a have "\<not> locationConverts L pd entry"
    by (auto simp: locationConverts_def list_all_iff)
  then show "\<exists>e. convertLocation L pd ty st entry = (None, Some e)"
    by (rule convertLocation_fails)
next
  assume a: "convertLocation L pd ty st entry = (Some sr, err)
      \<and> i < length (le_Period entry) \<and> j < length (pe_Rep (le_Period entry ! i))
      \<and> k \<in> set knownIntParams"
  let ?f = "Period_Forecasts (LocationRep_Period (SiteRep_Location sr) ! i) ! j"
  from a convertLocation_forecast(2) [of L pd ty st entry sr err i j]
  obtain t where "convertRep pd t (pe_Rep (le_Period entry ! i) ! j) = Inr ?f"
    by blast
  then have rr: "rangeRep pd (pe_Rep (le_Period entry ! i) ! j) Map.empty Map.empty
                   = Inr (IntParams ?f, StringParams ?f)"
    by (rule convertRep_Inr)
  from rangeRep_dom [OF rr] a have "k \<notin> dom (StringParams ?f)"
    by auto
  then show "StringParams ?f k = None"
    by auto
qed

text \<open>
  The value \<open>40000\<close> of the known integer \<open>T\<close> is outside the 16-bit range and the
  conversion fails; in the example that converts, \<open>T\<close> is not in \<open>StringParams\<close>.
\<close>

theorem known_int_parse_failure_witness:
  "isl (ParseInt ''40000'' 16)
   \<and> (\<exists>e. convertLocation golib (buildParamDefinitions Map.empty exampleWx) ''Forecast'' 0
             exampleOutOfRange = (None, Some e))
   \<and> StringParams
        (Period_Forecasts
           (LocationRep_Period
              (SiteRep_Location
                 (the (fst (convertLocation golib (buildParamDefinitions Map.empty exampleWx)
                              ''Forecast'' 0 exampleLocation)))) ! 0) ! 0) ''T'' = None"
proof -
  let ?pd = "buildParamDefinitions Map.empty exampleWx"
  let ?c = "convertLocation golib ?pd ''Forecast'' 0 exampleLocation"
  have bad: "isl (ParseInt ''40000'' 16)"
    by code_simp
  have h: "0 < length (le_Period exampleOutOfRange)
      \<and> 0 < length (pe_Rep (le_Period exampleOutOfRange ! 0))
      \<and> (''T'', ''40000'') \<in> set (pe_Rep (le_Period exampleOutOfRange ! 0) ! 0)
      \<and> ''T'' \<noteq> ''$'' \<and> ''T'' \<in> set knownIntParams \<and> isl (ParseInt ''40000'' 16)"
    by code_simp
  from known_int_parse_failure [of 0 exampleOutOfRange 0 "''T''" "''40000''" golib ?pd
      "''Forecast''" 0] h
  have fails: "\<exists>e. convertLocation golib ?pd ''Forecast'' 0 exampleOutOfRange = (None, Some e)"
    by blast
  have e: "snd ?c = None"
    by code_simp
  have "case fst ?c of None \<Rightarrow> False | Some x \<Rightarrow> True"
    by code_simp
  with e obtain sr where sr: "?c = (Some sr, None)"
    by (cases ?c) (auto split: option.splits)
  have g: "0 < length (le_Period exampleLocation)
      \<and> 0 < length (pe_Rep (le_Period exampleLocation ! 0)) \<and> ''T'' \<in> set knownIntParams"
    by code_simp
  from known_int_parse_failure [of 0 exampleLocation 0 "''T''" _ golib ?pd "''Forecast''" 0 sr None]
    sr g
  have "StringParams (Period_Forecasts (LocationRep_Period (SiteRep_Location sr) ! 0) ! 0) ''T''
          = None"
    by blast
  with bad fails sr show ?thesis
    by simp
qed

section \<open>C5: every key in exactly one mapping\<close>

text \<open>
  C5 as stated fails in its last part: when two keys of a record have no descriptor the
  error names the one the loop meets first and not the other. Go leaves the order of
  \<open>range\<close> over a map unspecified; in either order one of the two keys is not named.
\<close>

theorem unknown_parameter_counterexample:
  "(''Y'', ''2'') \<in> set (pe_Rep (le_Period exampleTwoUnknown ! 0) ! 0)
   \<and> buildParamDefinitions Map.empty exampleWx ''Y'' = None
   \<and> snd (convertLocation golib (buildParamDefinitions Map.empty exampleWx) ''Forecast'' 0
             exampleTwoUnknown)
       = Some (Errorf ''could not find descriptor for parameter %v'' [''X''] None)
   \<and> \<not> errorNames (Errorf ''could not find descriptor for parameter %v'' [''X''] None) ''Y''
   \<and> (''X'', ''1'') \<in> set (pe_Rep (le_Period exampleTwoUnknownSwapped ! 0) ! 0)
   \<and> buildParamDefinitions Map.empty exampleWx ''X'' = None
   \<and> snd (convertLocation golib (buildParamDefinitions Map.empty exampleWx) ''Forecast'' 0
             exampleTwoUnknownSwapped)
       = Some (Errorf ''could not find descriptor for parameter %v'' [''Y''] None)
   \<and> \<not> errorNames (Errorf ''could not find descriptor for parameter %v'' [''Y''] None) ''X''"
  by code_simp

text \<open>
  C5, amended. For every forecast of a conversion that returns a value, the keys of
  \<open>IntParams\<close> and of \<open>StringParams\<close> are disjoint and together are the keys of the record
  other than \<open>$\<close>. If a key other than \<open>$\<close> of some record has no descriptor, the
  conversion returns no value and an error. That error names the key when the key is the
  first failure the conversion meets: the periods before its period convert, the date of its
  period parses, the records before its record convert, its record has a \<open>$\<close> value that
  decodes, and the entries the loop visits before it convert.
\<close>

theorem parameter_mappings_partition:
  "(convertLocation L pd ty st entry = (Some sr, err)
      \<and> i < length (le_Period entry) \<and> j < length (pe_Rep (le_Period entry ! i))
    \<longrightarrow> dom (IntParams (Period_Forecasts (LocationRep_Period (SiteRep_Location sr) ! i) ! j))
          \<inter> dom (StringParams (Period_Forecasts (LocationRep_Period (SiteRep_Location sr) ! i) ! j))
          = {}
        \<and> dom (IntParams (Period_Forecasts (LocationRep_Period (SiteRep_Location sr) ! i) ! j))
          \<union> dom (StringParams (Period_Forecasts (LocationRep_Period (SiteRep_Location sr) ! i) ! j))
          = fst ` set (pe_Rep (le_Period entry ! i) ! j) - {''$''})
   \<and> (i < length (le_Period entry) \<and> j < length (pe_Rep (le_Period entry ! i))
      \<and> (k, v) \<in> set (pe_Rep (le_Period entry ! i) ! j) \<and> k \<noteq> ''$'' \<and> pd k = None
    \<longrightarrow> (\<exists>e. convertLocation L pd ty st entry = (None, Some e)))
   \<and> (le_Period entry = ppre @ p # ppost \<and> list_all (periodConverts L pd) ppre
      \<and> \<not> isl (time_Parse L ''2006-01-02Z'' (pe_Value p))
      \<and> pe_Rep p = rpre @ r # rpost \<and> list_all (repConverts pd) rpre
      \<and> map_of r ''$'' = Some tok \<and> \<not> isl (forecastOffset tok)
      \<and> r = pre @ (k, v) # post \<and> list_all (entryConverts pd) pre
      \<and> k \<noteq> ''$'' \<and> pd k = None
    \<longrightarrow> convertLocation L pd ty st entry
          = (None, Some (Errorf ''could not find descriptor for parameter %v'' [k] None)))"
proof (intro conjI impI)
  let ?f = "Period_Forecasts (LocationRep_Period (SiteRep_Location sr) ! i) ! j"
  let ?r = "pe_Rep (le_Period entry ! i) ! j"
  assume a: "convertLocation L pd ty st entry = (Some sr, err)
      \<and> i < length (le_Period entry) \<and> j < length (pe_Rep (le_Period entry ! i))"
  with convertLocation_forecast(2) [of L pd ty st entry sr err i j]
  obtain t where "convertRep pd t ?r = Inr ?f"
    by blast
  then have "rangeRep pd ?r Map.empty Map.empty = Inr (IntParams ?f, StringParams ?f)"
    by (rule convertRep_Inr)
  from rangeRep_dom [OF this]
  have di: "dom (IntParams ?f) = {k \<in> fst ` set ?r. k \<noteq> ''$'' \<and> k \<in> set knownIntParams}"
    and ds: "dom (StringParams ?f) = {k \<in> fst ` set ?r. k \<noteq> ''$'' \<and> k \<notin> set knownIntParams}"
    by simp_all
  show "dom (IntParams ?f) \<inter> dom (StringParams ?f) = {}"
    unfolding di ds by blast
  show "dom (IntParams ?f) \<union> dom (StringParams ?f) = fst ` set ?r - {''$''}"
    unfolding di ds by blast
next
  assume a: "i < length (le_Period entry) \<and> j < length (pe_Rep (le_Period entry ! i))
      \<and> (k, v) \<in> set (pe_Rep (le_Period entry ! i) ! j) \<and> k \<noteq> ''$'' \<and> pd k = None"
  then have "\<not> entryConverts pd (k, v)"
    by (simp add: entryConverts_def)
  with a have "\<not> repConverts pd (pe_Rep (le_Period entry ! i) ! j)"
    by (auto simp: repConverts_def list_all_iff)
  with a have "\<not> periodConverts L pd (le_Period entry ! i)"
    by (auto simp: periodConverts_def list_all_iff)
  with a have "\<not> locationConverts L pd entry"
    by (auto simp: locationConverts_def list_all_iff)
  then show "\<exists>e. convertLocation L pd ty st entry = (None, Some e)"
    by (rule convertLocation_fails)
next
  let ?E = "Errorf ''could not find descriptor for parameter %v'' [k] None"
  assume a: "le_Period entry = ppre @ p # ppost \<and> list_all (periodConverts L pd) ppre
      \<and> \<not> isl (time_Parse L ''2006-01-02Z'' (pe_Value p))
      \<and> pe_Rep p = rpre @ r # rpost \<and> list_all (repConverts pd) rpre
      \<and> map_of r ''$'' = Some tok \<and> \<not> isl (forecastOffset tok)
      \<and> r = pre @ (k, v) # post \<and> list_all (entryConverts pd) pre
      \<and> k \<noteq> ''$'' \<and> pd k = None"
  then have r: "r = pre @ (k, v) # post" and tok: "map_of r ''$'' = Some tok"
    and pre: "list_all (entryConverts pd) pre" and k: "k \<noteq> ''$''" "pd k = None"
    by blast+
  from rangeRep_prefix_missing [OF pre k, of v post Map.empty Map.empty] r
  have rr: "rangeRep pd r Map.empty Map.empty = Inl ?E"
    by simp
  from a obtain off where off: "forecastOffset tok = Inr off"
    by (cases "forecastOffset tok") auto
  from a obtain t where t: "time_Parse L ''2006-01-02Z'' (pe_Value p) = Inr t"
    by (cases "time_Parse L ''2006-01-02Z'' (pe_Value p)") auto
  from tok rr off have "convertRep pd t r = Inl ?E"
    by (simp add: convertRep_def)
  with a have "convertReps pd t (pe_Rep p) = Inl ?E"
    using convertReps_first_failure [of pd rpre t r ?E rpost] by simp
  with t have "convertPeriod L pd p = Inl ?E"
    by (simp add: convertPeriod_def)
  with a have "convertPeriods L pd (le_Period entry) = Inl ?E"
    using convertPeriods_first_failure [of L pd ppre p ?E ppost] by simp
  then show "convertLocation L pd ty st entry = (None, Some ?E)"
    by (simp add: convertLocation_def)
qed

text \<open>
  The first record of the example has the integer \<open>T\<close> and the strings \<open>V\<close> and \<open>D\<close>; in the
  variant with the unknown codes \<open>X\<close> and \<open>Y\<close>, visited in this order, the conversion fails
  and its error names \<open>X\<close>.
\<close>

theorem parameter_mappings_partition_witness:
  "dom (IntParams
          (Period_Forecasts
             (LocationRep_Period
                (SiteRep_Location
                   (the (fst (convertLocation golib (buildParamDefinitions Map.empty exampleWx)
                                ''Forecast'' 0 exampleLocation)))) ! 0) ! 0))
     \<inter> dom (StringParams
          (Period_Forecasts
             (LocationRep_Period
                (SiteRep_Location
                   (the (fst (convertLocation golib (buildParamDefinitions Map.empty exampleWx)
                                ''Forecast'' 0 exampleLocation)))) ! 0) ! 0)) = {}
   \<and> dom (IntParams
          (Period_Forecasts
             (LocationRep_Period
                (SiteRep_Location
                   (the (fst (convertLocation golib (buildParamDefinitions Map.empty exampleWx)
                                ''Forecast'' 0 exampleLocation)))) ! 0) ! 0))
     \<union> dom (StringParams
          (Period_Forecasts
             (LocationRep_Period
                (SiteRep_Location
                   (the (fst (convertLocation golib (buildParamDefinitions Map.empty exampleWx)
                                ''Forecast'' 0 exampleLocation)))) ! 0) ! 0))
     = {''T'', ''V'', ''D''}
   \<and> (\<exists>e. convertLocation golib (buildParamDefinitions Map.empty exampleWx) ''Forecast'' 0
             exampleTwoUnknown = (None, Some e))
   \<and> convertLocation golib (buildParamDefinitions Map.empty exampleWx) ''Forecast'' 0
        exampleTwoUnknown
      = (None, Some (Errorf ''could not find descriptor for parameter %v'' [''X''] None))"
proof -
  let ?pd = "buildParamDefinitions Map.empty exampleWx"
  let ?c = "convertLocation golib ?pd ''Forecast'' 0 exampleLocation"
  have e: "snd ?c = None"
    by code_simp
  have "case fst ?c of None \<Rightarrow> False | Some x \<Rightarrow> True"
    by code_simp
  with e obtain sr where sr: "?c = (Some sr, None)"
    by (cases ?c) (auto split: option.splits)
  have g: "0 < length (le_Period exampleLocation)
      \<and> 0 < length (pe_Rep (le_Period exampleLocation ! 0))"
    by code_simp
  have keys: "fst ` set (pe_Rep (le_Period exampleLocation ! 0) ! 0) - {''$''} = {''T'', ''V'', ''D''}"
    by (auto simp: exampleLocation_def examplePeriod_def)
  from parameter_mappings_partition [of golib ?pd "''Forecast''" 0 exampleLocation sr None 0 0]
    sr g keys
  have part1: "dom (IntParams (Period_Forecasts (LocationRep_Period (SiteRep_Location sr) ! 0) ! 0))
        \<inter> dom (StringParams (Period_Forecasts (LocationRep_Period (SiteRep_Location sr) ! 0) ! 0))
        = {}"
    "dom (IntParams (Period_Forecasts (LocationRep_Period (SiteRep_Location sr) ! 0) ! 0))
        \<union> dom (StringParams (Period_Forecasts (LocationRep_Period (SiteRep_Location sr) ! 0) ! 0))
        = {''T'', ''V'', ''D''}"
    by simp_all
  have h2: "0 < length (le_Period exampleTwoUnknown)
      \<and> 0 < length (pe_Rep (le_Period exampleTwoUnknown ! 0))
      \<and> (''X'', ''1'') \<in> set (pe_Rep (le_Period exampleTwoUnknown ! 0) ! 0)
      \<and> ''X'' \<noteq> ''$'' \<and> ?pd ''X'' = None"
    by code_simp
  from parameter_mappings_partition
         [of golib ?pd "''Forecast''" 0 exampleTwoUnknown _ _ 0 0 "''X''" "''1''"] h2
  have part2: "\<exists>e. convertLocation golib ?pd ''Forecast'' 0 exampleTwoUnknown = (None, Some e)"
    by blast
  let ?p = "\<lparr>pe_Type = ''Day'', pe_Value = ''2012-11-21Z'',
             pe_Rep = [[(''$'', ''0''), (''X'', ''1''), (''Y'', ''2'')]]\<rparr>"
  have h3a: "le_Period exampleTwoUnknown = [] @ ?p # []"
    by (simp add: exampleTwoUnknown_def)
  have h3b: "list_all (periodConverts golib ?pd) []
      \<and> \<not> isl (time_Parse golib ''2006-01-02Z'' (pe_Value ?p))"
    by code_simp
  have h3c: "pe_Rep ?p = [] @ [(''$'', ''0''), (''X'', ''1''), (''Y'', ''2'')] # []"
    by simp
  have h3d: "list_all (repConverts ?pd) []
      \<and> map_of [(''$'', ''0''), (''X'', ''1''), (''Y'', ''2'')] ''$'' = Some ''0''
      \<and> \<not> isl (forecastOffset ''0'')"
    by code_simp
  have h3e: "[(''$'', ''0''), (''X'', ''1''), (''Y'', ''2'')]
               = [(''$'', ''0'')] @ (''X'', ''1'') # [(''Y'', ''2'')]"
    by simp
  have h3f: "list_all (entryConverts ?pd) [(''$'', ''0'')] \<and> ''X'' \<noteq> ''$'' \<and> ?pd ''X'' = None"
    by code_simp
  from parameter_mappings_partition
         [of golib ?pd "''Forecast''" 0 exampleTwoUnknown _ _ _ _ "''X''" "''1''"
             "[]" ?p "[]" "[]" "[(''$'', ''0''), (''X'', ''1''), (''Y'', ''2'')]" "[]" "''0''"
             "[(''$'', ''0'')]" "[(''Y'', ''2'')]"]
    h3a h3b h3c h3d h3e h3f
  have part3: "convertLocation golib ?pd ''Forecast'' 0 exampleTwoUnknown
      = (None, Some (Errorf ''could not find descriptor for parameter %v'' [''X''] None))"
    by blast
  from sr part1 part2 part3 show ?thesis
    by simp
qed

section \<open>C3: the elevation\<close>

text \<open>
  C3 as stated fails for \<open>convertLocation\<close>: the elevation \<open>abc\<close> of a location is a hard
  error there (lines 416 to 419 return \<open>failed to parse elevation\<close>), not a warning and a
  zero. Only the site list swallows the failure.
\<close>

theorem location_elevation_counterexample:
  "le_Elevation exampleBadElevation = ''abc''
   \<and> isl (ParseFloat golib ''abc'')
   \<and> snd (convertLocation golib (buildParamDefinitions Map.empty exampleWx) ''Forecast'' 0
             exampleBadElevation)
       = Some (Errorf ''failed to parse elevation: %w'' []
                 (Some (NumError ''ParseFloat'' ''abc'' ErrSyntax)))
   \<and> (case fst (convertLocation golib (buildParamDefinitions Map.empty exampleWx) ''Forecast'' 0
                   exampleBadElevation) of None \<Rightarrow> True | Some sr \<Rightarrow> False)"
  by code_simp

text \<open>
  C3, amended. In the site list conversion, for an entry whose latitude, longitude and id
  parse: an empty elevation yields a Site of elevation 0 and no warning; an elevation that
  is not empty and does not parse yields a Site of elevation 0 and the one warning
  \<open>failed to parse elevation\<close>, and no error; and an entry yields a Site only if its
  latitude, longitude and id parse, so that the elevation is the sole field whose parse
  failure is swallowed. In \<open>convertLocation\<close>, an empty elevation of a location whose other
  fields convert yields a LocationRep of elevation 0 and no error, and an elevation that is
  not empty and does not parse makes the whole conversion fail with an error.
\<close>

theorem elevation_defaulting:
  "(\<not> isl (ParseFloat L (sl_Latitude site)) \<and> \<not> isl (ParseFloat L (sl_Longitude site))
      \<and> \<not> isl (ParseInt (sl_Id site) 64) \<and> sl_Elevation site = ''''
    \<longrightarrow> (\<exists>s. convertSite L site = (Inr s, []) \<and> Site_Elevation s = 0))
   \<and> (\<not> isl (ParseFloat L (sl_Latitude site)) \<and> \<not> isl (ParseFloat L (sl_Longitude site))
      \<and> \<not> isl (ParseInt (sl_Id site) 64) \<and> sl_Elevation site \<noteq> ''''
      \<and> ParseFloat L (sl_Elevation site) = Inl e
    \<longrightarrow> (\<exists>s. convertSite L site
               = (Inr s, [Warn ''failed to parse elevation'' [sl_Elevation site] (Some e)])
             \<and> Site_Elevation s = 0))
   \<and> (convertSite L site = (Inr s', w)
    \<longrightarrow> \<not> isl (ParseFloat L (sl_Latitude site)) \<and> \<not> isl (ParseFloat L (sl_Longitude site))
        \<and> \<not> isl (ParseInt (sl_Id site) 64))
   \<and> (locationConverts L pd entry \<and> le_Elevation entry = ''''
    \<longrightarrow> (\<exists>sr. convertLocation L pd ty st entry = (Some sr, None)
              \<and> LocationRep_Elevation (SiteRep_Location sr) = 0))
   \<and> (le_Elevation entry \<noteq> '''' \<and> isl (ParseFloat L (le_Elevation entry))
    \<longrightarrow> (\<exists>err. convertLocation L pd ty st entry = (None, Some err)))"
proof (intro conjI impI)
  assume "\<not> isl (ParseFloat L (sl_Latitude site)) \<and> \<not> isl (ParseFloat L (sl_Longitude site))
      \<and> \<not> isl (ParseInt (sl_Id site) 64) \<and> sl_Elevation site = ''''"
  then show "\<exists>s. convertSite L site = (Inr s, []) \<and> Site_Elevation s = 0"
    by (auto simp: convertSite_def split: sum.splits)
next
  assume "\<not> isl (ParseFloat L (sl_Latitude site)) \<and> \<not> isl (ParseFloat L (sl_Longitude site))
      \<and> \<not> isl (ParseInt (sl_Id site) 64) \<and> sl_Elevation site \<noteq> ''''
      \<and> ParseFloat L (sl_Elevation site) = Inl e"
  then show "\<exists>s. convertSite L site
               = (Inr s, [Warn ''failed to parse elevation'' [sl_Elevation site] (Some e)])
             \<and> Site_Elevation s = 0"
    by (auto simp: convertSite_def split: sum.splits)
next
  assume a: "convertSite L site = (Inr s', w)"
  then show "\<not> isl (ParseFloat L (sl_Latitude site))"
    by (auto simp: convertSite_def split: sum.splits)
  from a show "\<not> isl (ParseFloat L (sl_Longitude site))"
    by (auto simp: convertSite_def split: sum.splits)
  from a show "\<not> isl (ParseInt (sl_Id site) 64)"
    by (auto simp: convertSite_def split: sum.splits)
next
  assume a: "locationConverts L pd entry \<and> le_Elevation entry = ''''"
  then obtain sr where sr: "convertLocation L pd ty st entry = (Some sr, None)"
    using convertLocation_converts [of L pd ty st entry] by blast
  with a have "LocationRep_Elevation (SiteRep_Location sr) = 0"
    by (auto simp: convertLocation_def split: sum.splits)
  with sr show "\<exists>sr. convertLocation L pd ty st entry = (Some sr, None)
              \<and> LocationRep_Elevation (SiteRep_Location sr) = 0"
    by blast
next
  assume "le_Elevation entry \<noteq> '''' \<and> isl (ParseFloat L (le_Elevation entry))"
  then have "\<not> locationConverts L pd entry"
    by (simp add: locationConverts_def)
  then show "\<exists>err. convertLocation L pd ty st entry = (None, Some err)"
    by (rule convertLocation_fails)
qed

text \<open>
  The site of the specification's scenario, without and with the elevation \<open>abc\<close>, and the
  example location without and with it.
\<close>

theorem elevation_defaulting_witness:
  "(\<exists>s. convertSite golib exampleSite = (Inr s, []) \<and> Site_Elevation s = 0)
   \<and> (\<exists>s. convertSite golib exampleSiteBadElevation
             = (Inr s, [Warn ''failed to parse elevation'' [''abc'']
                          (Some (NumError ''ParseFloat'' ''abc'' ErrSyntax))])
           \<and> Site_Elevation s = 0)
   \<and> \<not> isl (ParseFloat golib (sl_Latitude exampleSite))
   \<and> (\<exists>sr. convertLocation golib (buildParamDefinitions Map.empty exampleWx) ''Forecast'' 0
              exampleNoElevation = (Some sr, None)
            \<and> LocationRep_Elevation (SiteRep_Location sr) = 0)
   \<and> (\<exists>err. convertLocation golib (buildParamDefinitions Map.empty exampleWx) ''Forecast'' 0
               exampleBadElevation = (None, Some err))"
proof -
  let ?pd = "buildParamDefinitions Map.empty exampleWx"
  have h1: "\<not> isl (ParseFloat golib (sl_Latitude exampleSite))
      \<and> \<not> isl (ParseFloat golib (sl_Longitude exampleSite))
      \<and> \<not> isl (ParseInt (sl_Id exampleSite) 64) \<and> sl_Elevation exampleSite = ''''"
    by code_simp
  from elevation_defaulting [of golib exampleSite] h1
  have p1: "\<exists>s. convertSite golib exampleSite = (Inr s, []) \<and> Site_Elevation s = 0"
    by blast
  have h2: "\<not> isl (ParseFloat golib (sl_Latitude exampleSiteBadElevation))
      \<and> \<not> isl (ParseFloat golib (sl_Longitude exampleSiteBadElevation))
      \<and> \<not> isl (ParseInt (sl_Id exampleSiteBadElevation) 64)
      \<and> sl_Elevation exampleSiteBadElevation \<noteq> ''''
      \<and> ParseFloat golib (sl_Elevation exampleSiteBadElevation)
          = Inl (NumError ''ParseFloat'' ''abc'' ErrSyntax)"
    by code_simp
  have el: "sl_Elevation exampleSiteBadElevation = ''abc''"
    by code_simp
  from elevation_defaulting
         [of golib exampleSiteBadElevation "NumError ''ParseFloat'' ''abc'' ErrSyntax"] h2 el
  have p2: "\<exists>s. convertSite golib exampleSiteBadElevation
              = (Inr s, [Warn ''failed to parse elevation'' [''abc'']
                           (Some (NumError ''ParseFloat'' ''abc'' ErrSyntax))])
            \<and> Site_Elevation s = 0"
    by simp
  from p1 obtain s0 where s0: "convertSite golib exampleSite = (Inr s0, [])"
    by blast
  from elevation_defaulting [of golib exampleSite _ s0 "[]"] s0
  have p3: "\<not> isl (ParseFloat golib (sl_Latitude exampleSite))"
    by blast
  have h4: "locationConverts golib ?pd exampleNoElevation \<and> le_Elevation exampleNoElevation = ''''"
    by code_simp
  from elevation_defaulting [of golib _ _ _ _ ?pd exampleNoElevation "''Forecast''" 0] h4
  have p4: "\<exists>sr. convertLocation golib ?pd ''Forecast'' 0 exampleNoElevation = (Some sr, None)
              \<and> LocationRep_Elevation (SiteRep_Location sr) = 0"
    by blast
  have h5: "le_Elevation exampleBadElevation \<noteq> ''''
      \<and> isl (ParseFloat golib (le_Elevation exampleBadElevation))"
    by code_simp
  from elevation_defaulting [of golib _ _ _ _ ?pd exampleBadElevation "''Forecast''" 0] h5
  have p5: "\<exists>err. convertLocation golib ?pd ''Forecast'' 0 exampleBadElevation = (None, Some err)"
    by blast
  from p1 p2 p3 p4 p5 show ?thesis
    by blast
qed

section \<open>C9: the status code\<close>

text \<open>
  C9. \<open>fetch\<close> never reads the status code. For two clients with the same key and base URI
  whose HTTP layer answers every request alike but for the status code, \<open>fetch\<close> returns the
  same body, target and error and logs the same warnings; and whenever the request returns
  a response whose body can be read, \<open>fetch\<close> returns that body and a \<open>nil\<close> error,
  whatever the status code of the response.
\<close>

theorem fetch_ignores_status:
  "(apiKeySupplier d1 = apiKeySupplier d2 \<and> baseUrl d1 = baseUrl d2
      \<and> (\<forall>u. sameButStatus (httpClient d1 u) (httpClient d2 u))
    \<longrightarrow> fetch L d1 description suffix params = fetch L d2 description suffix params)
   \<and> (url_JoinPath L (baseUrl d) suffix = Inr target
      \<and> httpClient d (requestURL target (apiKeySupplier d) params) = Inr r
      \<and> Body r = Inr body
    \<longrightarrow> fst (fetch L d description suffix params) = (body, target, None))"
proof (intro conjI impI)
  assume a: "apiKeySupplier d1 = apiKeySupplier d2 \<and> baseUrl d1 = baseUrl d2
      \<and> (\<forall>u. sameButStatus (httpClient d1 u) (httpClient d2 u))"
  show "fetch L d1 description suffix params = fetch L d2 description suffix params"
  proof (cases "url_JoinPath L (baseUrl d2) suffix")
    case (Inl e)
    with a show ?thesis
      by (simp add: fetch_def)
  next
    case (Inr target)
    let ?u = "requestURL target (apiKeySupplier d2) params"
    from a have "sameButStatus (httpClient d1 ?u) (httpClient d2 ?u)"
      by blast
    then have "(case httpClient d1 ?u of
                  Inl err \<Rightarrow> Inl err | Inr r \<Rightarrow> Inr (Body r, BodyClose r))
             = (case httpClient d2 ?u of
                  Inl err \<Rightarrow> Inl err | Inr r \<Rightarrow> Inr (Body r, BodyClose r))"
      by (auto simp: sameButStatus_def split: sum.splits)
    with a Inr show ?thesis
      by (auto simp: fetch_def split: sum.splits)
  qed
next
  assume "url_JoinPath L (baseUrl d) suffix = Inr target
      \<and> httpClient d (requestURL target (apiKeySupplier d) params) = Inr r
      \<and> Body r = Inr body"
  then show "fst (fetch L d description suffix params) = (body, target, None)"
    by (simp add: fetch_def)
qed

text \<open>The same body served with the status codes 404 and 200.\<close>

theorem fetch_ignores_status_witness:
  "fetch golib (exampleClient 404 ''{}'') ''sitelist'' ''val/wxfcs/all/json/sitelist'' None
     = fetch golib (exampleClient 200 ''{}'') ''sitelist'' ''val/wxfcs/all/json/sitelist'' None
   \<and> fst (fetch golib (exampleClient 404 ''{}'') ''sitelist'' ''val/wxfcs/all/json/sitelist'' None)
     = (''{}'', ''http://datapoint.metoffice.gov.uk/public/data/val/wxfcs/all/json/sitelist'', None)"
proof -
  let ?t = "''http://datapoint.metoffice.gov.uk/public/data/val/wxfcs/all/json/sitelist''"
  have h1: "apiKeySupplier (exampleClient 404 ''{}'') = apiKeySupplier (exampleClient 200 ''{}'')
      \<and> baseUrl (exampleClient 404 ''{}'') = baseUrl (exampleClient 200 ''{}'')
      \<and> (\<forall>u. sameButStatus (httpClient (exampleClient 404 ''{}'') u)
                (httpClient (exampleClient 200 ''{}'') u))"
    by (simp add: exampleClient_def exampleServer_def sameButStatus_def)
  from fetch_ignores_status
         [where ?d1.0 = "exampleClient 404 ''{}''" and ?d2.0 = "exampleClient 200 ''{}''"
            and L = golib] h1
  have p1: "fetch golib (exampleClient 404 ''{}'') ''sitelist'' ''val/wxfcs/all/json/sitelist'' None
     = fetch golib (exampleClient 200 ''{}'') ''sitelist'' ''val/wxfcs/all/json/sitelist'' None"
    by blast
  have j: "url_JoinPath golib (baseUrl (exampleClient 404 ''{}'')) ''val/wxfcs/all/json/sitelist''
             = Inr ?t"
    by code_simp
  have h2: "httpClient (exampleClient 404 ''{}'')
               (requestURL ?t (apiKeySupplier (exampleClient 404 ''{}'')) None)
             = Inr \<lparr>StatusCode = 404, Body = Inr ''{}'', BodyClose = None\<rparr>
      \<and> Body \<lparr>StatusCode = 404, Body = Inr ''{}'', BodyClose = None\<rparr> = Inr ''{}''"
    by (simp add: exampleClient_def exampleServer_def)
  from fetch_ignores_status
         [where L = golib and suffix = "''val/wxfcs/all/json/sitelist''" and params = None
            and d = "exampleClient 404 ''{}''" and target = ?t
            and r = "\<lparr>StatusCode = 404, Body = Inr ''{}'', BodyClose = None\<rparr>"
            and body = "''{}''" and description = "''sitelist''"]
    j h2
  have p2: "fst (fetch golib (exampleClient 404 ''{}'') ''sitelist''
                   ''val/wxfcs/all/json/sitelist'' None) = (''{}'', ?t, None)"
    by blast
  from p1 p2 show ?thesis
    by blast
qed

section \<open>C10: the credential in the request URL\<close>

text \<open>
  C10. The URL \<open>fetch\<close> requests is the target, \<open>?key=\<close>, the credential as the supplier
  returned it, and for each query parameter \<open>&\<close>, the escaped key, \<open>=\<close> and the escaped
  value. \<open>fetch\<close> issues its request at that URL and at no other: when the HTTP layer
  answers that URL with a readable body, \<open>fetch\<close> returns that body and the target; when it
  fails at that URL, \<open>fetch\<close> returns the failure, wrapped; and what the HTTP layer would do
  at any other URL has no effect on the outcome. An escaped key or value has no byte but
  letters, digits and \<open>- _ . ~ + %\<close>, so each parameter adds exactly one \<open>&\<close> to the
  query, while every \<open>&\<close> of the credential is in the query as it stands: the number of
  \<open>&\<close> after the target is the number of parameters plus the number of \<open>&\<close> in the
  credential.
\<close>

theorem credential_not_escaped:
  "requestURL target key params
     = target @ ''?key='' @ key
       @ concat (map (\<lambda>(k, v). ''&'' @ QueryEscape k @ ''='' @ QueryEscape v)
                   (case params of None \<Rightarrow> [] | Some kvs \<Rightarrow> kvs))
   \<and> (\<forall>c \<in> set (QueryEscape s). queryByte c)
   \<and> count_list (drop (length target) (requestURL target key params)) CHR ''&''
     = count_list key CHR ''&'' + (case params of None \<Rightarrow> 0 | Some kvs \<Rightarrow> length kvs)
   \<and> (url_JoinPath L (baseUrl d) suffix = Inr target
      \<and> baseUrl d' = baseUrl d \<and> apiKeySupplier d' = apiKeySupplier d
      \<and> httpClient d' (requestURL target (apiKeySupplier d) params)
        = httpClient d (requestURL target (apiKeySupplier d) params)
    \<longrightarrow> fetch L d' description suffix params = fetch L d description suffix params)
   \<and> (url_JoinPath L (baseUrl d) suffix = Inr target
      \<and> httpClient d
          (target @ ''?key='' @ apiKeySupplier d
           @ concat (map (\<lambda>(k, v). ''&'' @ QueryEscape k @ ''='' @ QueryEscape v)
                       (case params of None \<Rightarrow> [] | Some kvs \<Rightarrow> kvs))) = Inr r
      \<and> Body r = Inr body
    \<longrightarrow> fst (fetch L d description suffix params) = (body, target, None))
   \<and> (url_JoinPath L (baseUrl d) suffix = Inr target
      \<and> httpClient d
          (target @ ''?key='' @ apiKeySupplier d
           @ concat (map (\<lambda>(k, v). ''&'' @ QueryEscape k @ ''='' @ QueryEscape v)
                       (case params of None \<Rightarrow> [] | Some kvs \<Rightarrow> kvs))) = Inl err
    \<longrightarrow> fetch L d description suffix params
        = (('''', target,
            Some (Errorf ''failed to query %v for %v: %w'' [target, description] (Some err))),
           []))"
proof (intro conjI impI ballI)
  show "requestURL target key params
     = target @ ''?key='' @ key
       @ concat (map (\<lambda>(k, v). ''&'' @ QueryEscape k @ ''='' @ QueryEscape v)
                   (case params of None \<Rightarrow> [] | Some kvs \<Rightarrow> kvs))"
    by (rule requestURL_concat)
next
  fix c assume "c \<in> set (QueryEscape s)"
  then show "queryByte c"
    by (rule QueryEscape_queryByte)
next
  have "drop (length target) (requestURL target key params)
          = (case params of
               None \<Rightarrow> ''?key='' @ key
             | Some kvs \<Rightarrow> appendParams (''?key='' @ key) kvs)"
    by (simp add: requestURL_def appendParams_concat split: option.splits)
  then show "count_list (drop (length target) (requestURL target key params)) CHR ''&''
     = count_list key CHR ''&'' + (case params of None \<Rightarrow> 0 | Some kvs \<Rightarrow> length kvs)"
    by (simp add: appendParams_count split: option.splits)
next
  assume "url_JoinPath L (baseUrl d) suffix = Inr target
      \<and> baseUrl d' = baseUrl d \<and> apiKeySupplier d' = apiKeySupplier d
      \<and> httpClient d' (requestURL target (apiKeySupplier d) params)
        = httpClient d (requestURL target (apiKeySupplier d) params)"
  then show "fetch L d' description suffix params = fetch L d description suffix params"
    by (simp add: fetch_def)
next
  assume a: "url_JoinPath L (baseUrl d) suffix = Inr target
      \<and> httpClient d
          (target @ ''?key='' @ apiKeySupplier d
           @ concat (map (\<lambda>(k, v). ''&'' @ QueryEscape k @ ''='' @ QueryEscape v)
                       (case params of None \<Rightarrow> [] | Some kvs \<Rightarrow> kvs))) = Inr r
      \<and> Body r = Inr body"
  then have "httpClient d (requestURL target (apiKeySupplier d) params) = Inr r"
    by (simp only: requestURL_concat)
  with a show "fst (fetch L d description suffix params) = (body, target, None)"
    by (simp add: fetch_def)
next
  assume a: "url_JoinPath L (baseUrl d) suffix = Inr target
      \<and> httpClient d
          (target @ ''?key='' @ apiKeySupplier d
           @ concat (map (\<lambda>(k, v). ''&'' @ QueryEscape k @ ''='' @ QueryEscape v)
                       (case params of None \<Rightarrow> [] | Some kvs \<Rightarrow> kvs))) = Inl err"
  then have "httpClient d (requestURL target (apiKeySupplier d) params) = Inl err"
    by (simp only: requestURL_concat)
  with a show "fetch L d description suffix params
      = (('''', target,
          Some (Errorf ''failed to query %v for %v: %w'' [target, description] (Some err))),
         [])"
    by (simp add: fetch_def)
qed

text \<open>
  A credential with an ampersand and a parameter value with a space, an ampersand and an
  equals sign: the credential adds the parameter \<open>admin=1\<close> to the query, the value is
  escaped. \<open>fetch\<close> with that credential gets the body of a server that knows only the URL
  with the credential as it stands, and gets the failure of the HTTP layer from a server
  that knows only the URL with the credential escaped.
\<close>

theorem credential_not_escaped_witness:
  "requestURL ''http://h/p'' ''k&admin=1'' (Some [(''res'', ''a b&c='')])
     = ''http://h/p?key=k&admin=1&res=a+b%26c%3D''
   \<and> QueryEscape ''a b&c='' = ''a+b%26c%3D''
   \<and> list_all queryByte (QueryEscape ''a b&c='')
   \<and> count_list (drop (length ''http://h/p'')
                   (requestURL ''http://h/p'' ''k&admin=1'' (Some [(''res'', ''a b&c='')])))
        CHR ''&'' = 2
   \<and> fst (fetch golib
            (exampleKeyClient ''k&admin=1''
               ''http://datapoint.metoffice.gov.uk/public/data/val/wxfcs/all/json/capabilities?key=k&admin=1&res=a+b%26c%3D'')
            ''capabilities'' ''val/wxfcs/all/json/capabilities'' (Some [(''res'', ''a b&c='')]))
     = (''{}'', ''http://datapoint.metoffice.gov.uk/public/data/val/wxfcs/all/json/capabilities'',
        None)
   \<and> fetch golib
        (exampleKeyClient ''k&admin=1''
           ''http://datapoint.metoffice.gov.uk/public/data/val/wxfcs/all/json/capabilities?key=k%26admin%3D1&res=a+b%26c%3D'')
        ''capabilities'' ''val/wxfcs/all/json/capabilities'' (Some [(''res'', ''a b&c='')])
     = (('''', ''http://datapoint.metoffice.gov.uk/public/data/val/wxfcs/all/json/capabilities'',
         Some (Errorf ''failed to query %v for %v: %w''
                 [''http://datapoint.metoffice.gov.uk/public/data/val/wxfcs/all/json/capabilities'',
                  ''capabilities'']
                 (Some (External ''no such host'')))),
        [])"
proof -
  let ?target = "''http://datapoint.metoffice.gov.uk/public/data/val/wxfcs/all/json/capabilities''"
  let ?plain = "''http://datapoint.metoffice.gov.uk/public/data/val/wxfcs/all/json/capabilities?key=k&admin=1&res=a+b%26c%3D''"
  let ?escaped = "''http://datapoint.metoffice.gov.uk/public/data/val/wxfcs/all/json/capabilities?key=k%26admin%3D1&res=a+b%26c%3D''"
  have e: "QueryEscape ''a b&c='' = ''a+b%26c%3D''" and r: "QueryEscape ''res'' = ''res''"
    by code_simp+
  note t = credential_not_escaped
             [where target = "''http://h/p''" and key = "''k&admin=1''"
                and params = "Some [(''res'', ''a b&c='')]" and s = "''a b&c=''"]
  from t [THEN conjunct1] e r
  have p1: "requestURL ''http://h/p'' ''k&admin=1'' (Some [(''res'', ''a b&c='')])
          = ''http://h/p?key=k&admin=1&res=a+b%26c%3D''"
    by simp
  from t [THEN conjunct2, THEN conjunct1]
  have p2: "list_all queryByte (QueryEscape ''a b&c='')"
    by (simp only: list_all_iff)
  from t [THEN conjunct2, THEN conjunct2, THEN conjunct1]
  have p3: "count_list (drop (length ''http://h/p'')
                   (requestURL ''http://h/p'' ''k&admin=1'' (Some [(''res'', ''a b&c='')])))
           CHR ''&'' = 2"
    by simp
  have j: "url_JoinPath golib (baseUrl (exampleKeyClient ''k&admin=1'' known))
             ''val/wxfcs/all/json/capabilities'' = Inr ?target" for known
    by (simp add: exampleKeyClient_def golib_def go_JoinPath_def plainSegments_def
          isLetter_def isDigit_def)
  have k: "apiKeySupplier (exampleKeyClient ''k&admin=1'' known) = ''k&admin=1''" for known
    by (simp add: exampleKeyClient_def)
  have g1: "httpClient (exampleKeyClient ''k&admin=1'' ?plain)
              (?target @ ''?key='' @ ''k&admin=1''
               @ concat (map (\<lambda>(k, v). ''&'' @ QueryEscape k @ ''='' @ QueryEscape v)
                           (case Some [(''res'', ''a b&c='')] of None \<Rightarrow> [] | Some kvs \<Rightarrow> kvs)))
            = Inr \<lparr>StatusCode = 200, Body = Inr ''{}'', BodyClose = None\<rparr>"
    by (simp add: exampleKeyClient_def exampleProbe_def e r)
  have g2: "httpClient (exampleKeyClient ''k&admin=1'' ?escaped)
              (?target @ ''?key='' @ ''k&admin=1''
               @ concat (map (\<lambda>(k, v). ''&'' @ QueryEscape k @ ''='' @ QueryEscape v)
                           (case Some [(''res'', ''a b&c='')] of None \<Rightarrow> [] | Some kvs \<Rightarrow> kvs)))
            = Inl (External ''no such host'')"
    by (simp add: exampleKeyClient_def exampleProbe_def e r)
  have p4: "fst (fetch golib (exampleKeyClient ''k&admin=1'' ?plain)
                  ''capabilities'' ''val/wxfcs/all/json/capabilities''
                  (Some [(''res'', ''a b&c='')]))
            = (''{}'', ?target, None)"
    using credential_not_escaped
            [where L = golib and d = "exampleKeyClient ''k&admin=1'' ?plain"
               and suffix = "''val/wxfcs/all/json/capabilities''" and target = ?target
               and params = "Some [(''res'', ''a b&c='')]"
               and r = "\<lparr>StatusCode = 200, Body = Inr ''{}'', BodyClose = None\<rparr>"
               and body = "''{}''" and description = "''capabilities''",
             THEN conjunct2, THEN conjunct2, THEN conjunct2, THEN conjunct2, THEN conjunct1]
          j [of ?plain] g1
    by (simp only: k Response.simps)
  have p5: "fetch golib (exampleKeyClient ''k&admin=1'' ?escaped)
              ''capabilities'' ''val/wxfcs/all/json/capabilities''
              (Some [(''res'', ''a b&c='')])
            = (('''', ?target,
                Some (Errorf ''failed to query %v for %v: %w'' [?target, ''capabilities'']
                        (Some (External ''no such host'')))),
               [])"
    using credential_not_escaped
            [where L = golib and d = "exampleKeyClient ''k&admin=1'' ?escaped"
               and suffix = "''val/wxfcs/all/json/capabilities''" and target = ?target
               and params = "Some [(''res'', ''a b&c='')]"
               and err = "External ''no such host''" and description = "''capabilities''",
             THEN conjunct2, THEN conjunct2, THEN conjunct2, THEN conjunct2, THEN conjunct2]
          j [of ?escaped] g2
    by (simp only: k)
  from p1 e p2 p3 p4 p5 show ?thesis
    by blast
qed

section \<open>C7: the no-data outcome\<close>

text \<open>
  C7. When the transport returned a body, the body decoded, and the location id of the
  decoded response is the empty string, \<open>FiveDayForecast\<close> returns \<open>(nil, nil)\<close>; and
  \<open>FiveDayForecast\<close> returns \<open>(nil, nil)\<close> in no other case, so the outcome is distinct from
  a value and from an error.
\<close>

theorem FiveDayForecast_no_data:
  "(fetch L d ''locationId'' (''val/wxfcs/all/json/'' @ Itoa locationID)
        (Some (forecastParams L resolution at')) = ((body, target, None), w)
      \<and> Unmarshal body = Inr result
      \<and> le_Id (dv_Location (srr_Dv result)) = ''''
    \<longrightarrow> FiveDayForecast L d Unmarshal resolution locationID at' = ((None, None), w))
   \<and> (fst (FiveDayForecast L d Unmarshal resolution locationID at') = (None, None)
    \<longrightarrow> (\<exists>body target w result.
           fetch L d ''locationId'' (''val/wxfcs/all/json/'' @ Itoa locationID)
             (Some (forecastParams L resolution at')) = ((body, target, None), w)
           \<and> Unmarshal body = Inr result
           \<and> le_Id (dv_Location (srr_Dv result)) = ''''))"
proof (intro conjI impI)
  assume "fetch L d ''locationId'' (''val/wxfcs/all/json/'' @ Itoa locationID)
        (Some (forecastParams L resolution at')) = ((body, target, None), w)
      \<and> Unmarshal body = Inr result
      \<and> le_Id (dv_Location (srr_Dv result)) = ''''"
  then show "FiveDayForecast L d Unmarshal resolution locationID at' = ((None, None), w)"
    by (simp add: FiveDayForecast_def)
next
  let ?fr = "fetch L d ''locationId'' (''val/wxfcs/all/json/'' @ Itoa locationID)
               (Some (forecastParams L resolution at'))"
  assume a: "fst (FiveDayForecast L d Unmarshal resolution locationID at') = (None, None)"
  obtain body target e w where fr: "?fr = ((body, target, e), w)"
    by (metis prod.exhaust)
  with a have e: "e = None"
    by (cases e) (auto simp: FiveDayForecast_def)
  with a fr obtain result where res: "Unmarshal body = Inr result"
    by (cases "Unmarshal body") (auto simp: FiveDayForecast_def)
  have "le_Id (dv_Location (srr_Dv result)) = ''''"
  proof (rule ccontr)
    assume ne: "le_Id (dv_Location (srr_Dv result)) \<noteq> ''''"
    show False
    proof (cases "time_Parse L RFC3339 (dv_DataDate (srr_Dv result))")
      case (Inl err)
      with a fr e res ne show False
        by (simp add: FiveDayForecast_def)
    next
      case (Inr startTime)
      with a fr e res ne
      have "convertLocation L (buildParamDefinitions Map.empty (srr_Wx result))
              (dv_Type (srr_Dv result)) startTime (dv_Location (srr_Dv result)) = (None, None)"
        by (simp add: FiveDayForecast_def)
      with convertLocation_shape
             [of L "buildParamDefinitions Map.empty (srr_Wx result)" "dv_Type (srr_Dv result)"
                 startTime "dv_Location (srr_Dv result)"]
      show False
        by auto
    qed
  qed
  with fr e res show "\<exists>body target w result. ?fr = ((body, target, None), w)
           \<and> Unmarshal body = Inr result
           \<and> le_Id (dv_Location (srr_Dv result)) = ''''"
    by blast
qed

text \<open>
  The service answers the request for location 999999 with the no-data response, under
  the status code 200.
\<close>

theorem FiveDayForecast_no_data_witness:
  "fetch golib (exampleClient 200 ''no-data'') ''locationId''
       (''val/wxfcs/all/json/'' @ Itoa 999999) (Some (forecastParams golib ''3hourly'' None))
     = ((''no-data'', ''http://datapoint.metoffice.gov.uk/public/data/val/wxfcs/all/json/999999'',
         None), [])
   \<and> le_Id (dv_Location (srr_Dv exampleNoData)) = ''''
   \<and> FiveDayForecast golib (exampleClient 200 ''no-data'') (exampleDecoder ''no-data'' exampleNoData)
        ''3hourly'' 999999 None = ((None, None), [])"
proof -
  have f: "fetch golib (exampleClient 200 ''no-data'') ''locationId''
       (''val/wxfcs/all/json/'' @ Itoa 999999) (Some (forecastParams golib ''3hourly'' None))
     = ((''no-data'', ''http://datapoint.metoffice.gov.uk/public/data/val/wxfcs/all/json/999999'',
         None), [])"
    by code_simp
  have u: "exampleDecoder ''no-data'' exampleNoData ''no-data'' = Inr exampleNoData"
    by (simp add: exampleDecoder_def)
  have i: "le_Id (dv_Location (srr_Dv exampleNoData)) = ''''"
    by (simp add: exampleNoData_def)
  from FiveDayForecast_no_data
         [where L = golib and d = "exampleClient 200 ''no-data''" and locationID = 999999
            and resolution = "''3hourly''" and at' = None and body = "''no-data''"
            and target = "''http://datapoint.metoffice.gov.uk/public/data/val/wxfcs/all/json/999999''"
            and w = "[]" and Unmarshal = "exampleDecoder ''no-data'' exampleNoData"
            and result = exampleNoData]
    f u i
  have "FiveDayForecast golib (exampleClient 200 ''no-data'')
          (exampleDecoder ''no-data'' exampleNoData) ''3hourly'' 999999 None = ((None, None), [])"
    by blast
  with f i show ?thesis
    by blast
qed

section \<open>C4: the timestamps of the envelopes\<close>

text \<open>
  C4. \<open>RegionalForecastCapabilities\<close> passes the timestamp of the response to \<open>time.Parse\<close>
  as the layout and the constant \<open>time.RFC3339\<close> as the value. Evaluated: the timestamp
  \<open>2012-11-21T15:00:00Z\<close> parses against \<open>time.RFC3339\<close>, and \<open>UkExtremesCapabilities\<close>
  accepts it as its \<open>issuedAt\<close>; \<open>RegionalForecastCapabilities\<close> rejects it, since read as a
  layout it asks for a day, a month and a day where the value has \<open>2006-\<close>; and
  \<open>RegionalForecastCapabilities\<close> accepts the text \<open>2006-01-02T15:04:05Z07:0007:00\<close>, which is
  no timestamp, and returns the reference time of the layout as the time of issue.
\<close>

theorem RegionalForecastCapabilities_swaps_layout_and_value:
  "time_Parse golib RFC3339 ''2012-11-21T15:00:00Z'' = Inr (1353510000 * Second)
   \<and> fst (UkExtremesCapabilities golib (exampleClient 200 ''capabilities'')
            (exampleDecoder ''capabilities''
               \<lparr>ecr_ExtremeDate = ''2012-11-21'', ecr_IssuedAt = ''2012-11-21T15:00:00Z''\<rparr>))
     = (Some \<lparr>ExtremeCapabilities_ExtremeDate = 1353456000 * Second,
              ExtremeCapabilities_IssuedAt = 1353510000 * Second\<rparr>, None)
   \<and> fst (RegionalForecastCapabilities golib (exampleClient 200 ''capabilities'')
            (exampleDecoder ''capabilities'' \<lparr>rfc_IssuedAt = ''2012-11-21T15:00:00Z''\<rparr>))
     = (None, Some (Errorf ''failed to parse issued at time: %w'' []
                      (Some (ParseError ''2012-11-21T15:00:00Z'' RFC3339))))
   \<and> isl (time_Parse golib RFC3339 ''2006-01-02T15:04:05Z07:0007:00'')
   \<and> fst (RegionalForecastCapabilities golib (exampleClient 200 ''capabilities'')
            (exampleDecoder ''capabilities'' \<lparr>rfc_IssuedAt = ''2006-01-02T15:04:05Z07:0007:00''\<rparr>))
     = (Some \<lparr>RegionalForecastCapabilities_IssuedAt = 1136214245 * Second\<rparr>, None)"
  by code_simp

section \<open>C8: a value, no data, or an error\<close>




end
